theory Spec2Isabelle
  imports Complex_Main
begin

section \<open>The simulation engine of \<open>web_app.py\<close>\<close>

text \<open>
  The only function of the repository with logic is \<open>run_simulation\<close> (lines 63-124 of
  \<open>src/web_app.py\<close>), which reads four module-level tables and maps a dictionary of six
  inputs to a dictionary of results. It is modelled twice: \<open>run_simulation\<close> is the call
  whose price and budget are floats, every operation of which is defined, and
  \<open>run_simulation_dyn\<close> is the call on Python numbers of either type, where an integer
  argument can make an operation raise.

  Numbers. The table entries written as integer literals are \<open>int\<close>; the demand
  multipliers, the price and the marketing budget are \<open>real\<close>, a float being the real
  number it denotes. Lines 75-82 turn a float into an integer by truncation, so there the
  last bit of every float operation matters: the demand of lines 75 and 78 is computed in
  binary64, each operation rounded to nearest, ties to even (\<open>fl\<close> below). From line 85
  on the results are sums and products that no later step truncates, except the ceiling of
  line 91 and the comparison of line 99, which take the same value in binary64 as in exact
  arithmetic for every attendance and every table entry; these lines are computed in exact
  real arithmetic. The conversions the source performs are written out: \<open>int(x)\<close>
  truncates toward zero, \<open>np.ceil\<close> is the ceiling, and \<open>np.sqrt\<close> of a negative number is
  \<open>nan\<close> (see \<open>base_demand\<close>).
\<close>

subsection \<open>Reference tables (lines 36-60)\<close>

record venue =
  Capacity :: int
  Fixed_Cost :: int
  Vibe :: int

record cat =
  Cost :: int
  Quality :: int

record staff =
  Ratio :: int
  CostPer :: int

record risk =
  DemandMult :: real
  SatPenalty :: int

definition VENUES :: "string \<rightharpoonup> venue" where
  "VENUES = map_of
     [(''Grand Hall'', \<lparr>Capacity = 500, Fixed_Cost = 5000, Vibe = 8\<rparr>),
      (''Tech Hub'', \<lparr>Capacity = 1000, Fixed_Cost = 12000, Vibe = 6\<rparr>),
      (''City Center'', \<lparr>Capacity = 2000, Fixed_Cost = 25000, Vibe = 9\<rparr>),
      (''Open Grounds'', \<lparr>Capacity = 5000, Fixed_Cost = 40000, Vibe = 7\<rparr>)]"

definition CATERING :: "string \<rightharpoonup> cat" where
  "CATERING = map_of
     [(''Basic Snacks'', \<lparr>Cost = 15, Quality = 2\<rparr>),
      (''Standard Buffet'', \<lparr>Cost = 35, Quality = 6\<rparr>),
      (''Premium Gourmet'', \<lparr>Cost = 60, Quality = 9\<rparr>)]"

definition STAFFING :: "string \<rightharpoonup> staff" where
  "STAFFING = map_of
     [(''Skeleton Crew'', \<lparr>Ratio = 1, CostPer = 200\<rparr>),
      (''Standard'', \<lparr>Ratio = 2, CostPer = 250\<rparr>),
      (''Premium Service'', \<lparr>Ratio = 4, CostPer = 300\<rparr>)]"

definition RISKS :: "string \<rightharpoonup> risk" where
  "RISKS = map_of
     [(''None (Normal)'', \<lparr>DemandMult = 1.0, SatPenalty = 0\<rparr>),
      (''Heavy Rain'', \<lparr>DemandMult = 0.7, SatPenalty = - 10\<rparr>),
      (''Competitor Event'', \<lparr>DemandMult = 0.6, SatPenalty = 0\<rparr>),
      (''Viral Buzz'', \<lparr>DemandMult = 1.5, SatPenalty = 5\<rparr>)]"

subsection \<open>Inputs, results and errors\<close>

text \<open>
  The \<open>inputs\<close> dictionary always carries the same six keys (lines 165-168), and the
  returned dictionary the same eight, \<open>Details\<close> being a nested dictionary (lines 110-124).
  A subscript with a key the dictionary lacks raises \<open>KeyError\<close> with that key. The type
  of the two numbers is a parameter: \<open>real\<close> for floats, \<open>number\<close> for Python numbers of
  either type, an \<open>int\<close> of any size (as the widgets of lines 159-160 return) or a finite
  float.
\<close>

record 'n inputs =
  Venue :: string
  Catering :: string
  Staffing :: string
  Price :: 'n
  Marketing :: 'n
  Risk :: string

datatype number = PyInt int | PyFloat real

record details =
  Venue_Cost :: int
  Marketing_Cost :: real
  Catering_Cost :: int
  Staff_Cost :: real

record outcome =
  Attendance :: int
  Revenue :: real
  Total_Cost :: real
  Profit :: real
  Satisfaction :: real
  Score :: real
  Crowding :: real
  Details :: details

text \<open>The exceptions of the call: a missing key, an \<open>int\<close> too large to convert to a
  float, and an \<open>int\<close> that \<open>np.sqrt\<close> cannot take.\<close>

datatype error = KeyError string | OverflowError | TypeError

definition subscript :: "(string \<rightharpoonup> 'v) \<Rightarrow> string \<Rightarrow> error + 'v" where
  "subscript d k = (case d k of None \<Rightarrow> Inl (KeyError k) | Some v \<Rightarrow> Inr v)"

subsection \<open>Binary floating point\<close>

text \<open>
  Rounding of a real number to the nearest integer, a tie going to the even neighbour.
\<close>

definition rne :: "real \<Rightarrow> int" where
  "rne x = (let f = \<lfloor>x\<rfloor>; d = x - of_int f in
     if d < 1/2 then f else if 1/2 < d then f + 1 else if even f then f else f + 1)"

text \<open>
  A binary64 number is an integer of at most 53 bits times a power of two. For a number
  of magnitude in \<open>[2^e, 2^(e+1))\<close> the spacing of the binary64 numbers is \<open>2^(e-52)\<close>;
  below \<open>2^(-1022)\<close>, in the subnormal range, it stays at \<open>2^(-1074)\<close>. \<open>ulp_exp\<close> is
  the exponent of that spacing and \<open>fl\<close> the rounding of a real number to binary64. The
  exponent has no upper limit here: overflow to infinity is not represented. On line 75 a
  product overflows only where the demand is cut to 0 by \<open>max\<close> or to the capacity by
  \<open>min\<close> whatever its size, so the attendance is the same.
\<close>

definition ulp_exp :: "real \<Rightarrow> int" where
  "ulp_exp x = max \<lfloor>log 2 \<bar>x\<bar>\<rfloor> (- 1022) - 52"

definition fl :: "real \<Rightarrow> real" where
  "fl x = of_int (rne (x / 2 powi ulp_exp x)) * 2 powi ulp_exp x"

subsection \<open>The steps of \<open>run_simulation\<close>\<close>

text \<open>
  Line 75, \<open>max(0, 2000 - 3.5 * price + 0.04 * marketing + 10 * np.sqrt(marketing))\<close>,
  operation by operation in the order Python evaluates them, each result rounded. The
  literal \<open>0.04\<close> is the binary64 number nearest to it; 2000, 3.5 and 10 are binary64
  numbers themselves. A price or a budget that is an integer is converted to binary64
  first; for one that is a float already this rounding changes nothing (\<open>fl_idem\<close>).

  For a negative budget \<open>np.sqrt\<close> returns \<open>nan\<close>, the sum is \<open>nan\<close>, and
  \<open>max(0, nan)\<close> returns its first argument, because \<open>nan > 0\<close> is false; HOL's
  \<open>sqrt\<close> is defined differently there, so that branch is written out.
\<close>

definition base_demand :: "real \<Rightarrow> real \<Rightarrow> real" where
  "base_demand price marketing =
     (if marketing < 0 then 0
      else max 0
        (fl (fl (fl (2000 - fl (3.5 * fl price)) + fl (fl 0.04 * fl marketing))
               + fl (10 * fl (sqrt (fl marketing))))))"

text \<open>Line 78: the product with the multiplier of the table, a float literal.\<close>

definition risk_demand :: "risk \<Rightarrow> real \<Rightarrow> real \<Rightarrow> real" where
  "risk_demand r price marketing = fl (base_demand price marketing * fl (DemandMult r))"

text \<open>Line 82: \<open>int(x)\<close> drops the fractional part, toward zero.\<close>

definition py_int :: "real \<Rightarrow> int" where
  "py_int x = (if 0 \<le> x then \<lfloor>x\<rfloor> else \<lceil>x\<rceil>)"

text \<open>Lines 81-82.\<close>

definition attendance :: "venue \<Rightarrow> risk \<Rightarrow> real \<Rightarrow> real \<Rightarrow> int" where
  "attendance v r price marketing =
     py_int (min (risk_demand r price marketing) (of_int (Capacity v)))"

text \<open>Line 91. \<open>np.ceil\<close> returns a float with an integral value.\<close>

definition num_staff :: "int \<Rightarrow> staff \<Rightarrow> int" where
  "num_staff a s = \<lceil>(of_int a / 100) * of_int (Ratio s) :: real\<rceil>"

text \<open>Line 98, with its guard against a capacity of zero.\<close>

definition crowding :: "int \<Rightarrow> venue \<Rightarrow> real" where
  "crowding a v = (if Capacity v > 0 then of_int a / of_int (Capacity v) else 0)"

text \<open>Line 99.\<close>

definition crowding_penalty :: "real \<Rightarrow> real" where
  "crowding_penalty c = (if c > 0.9 then 15 else 0)"

text \<open>Lines 101-103: the satisfaction before it is clamped.\<close>

definition sat_raw :: "venue \<Rightarrow> cat \<Rightarrow> staff \<Rightarrow> risk \<Rightarrow> real \<Rightarrow> real" where
  "sat_raw v c s r penalty =
     (of_int (Vibe v) * 3.3) + (of_int (Quality c) * 3.3) + (of_int (Ratio s) * 8)
       - penalty + of_int (SatPenalty r)"

text \<open>Lines 70-124, once the four table entries are at hand.\<close>

definition simulate :: "venue \<Rightarrow> cat \<Rightarrow> staff \<Rightarrow> risk \<Rightarrow> real \<Rightarrow> real \<Rightarrow> outcome" where
  "simulate v c s r price marketing =
     (let a = attendance v r price marketing;
          revenue = of_int a * price;
          venue_cost = Fixed_Cost v;
          marketing_cost = marketing;
          catering_cost = a * Cost c;
          staff_cost = of_int (num_staff a s) * of_int (CostPer s);
          total_cost = of_int venue_cost + marketing_cost + of_int catering_cost + staff_cost;
          profit = revenue - total_cost;
          crowd = crowding a v;
          sat_score = min 100 (max 0 (sat_raw v c s r (crowding_penalty crowd)));
          score = (max 0 profit / 200000 * 50) + (sat_score * 0.5)
      in \<lparr>Attendance = a, Revenue = revenue, Total_Cost = total_cost, Profit = profit,
          Satisfaction = sat_score, Score = score, Crowding = crowd * 100,
          Details = \<lparr>Venue_Cost = venue_cost, Marketing_Cost = marketing_cost,
                     Catering_Cost = catering_cost, Staff_Cost = staff_cost\<rparr>\<rparr>)"

text \<open>Lines 63-68: the four subscripts, in the order of the source; the first missing
  label ends the call.\<close>

definition run_simulation :: "real inputs \<Rightarrow> error + outcome" where
  "run_simulation i =
     (case subscript VENUES (Venue i) of Inl e \<Rightarrow> Inl e | Inr v \<Rightarrow>
     (case subscript CATERING (Catering i) of Inl e \<Rightarrow> Inl e | Inr c \<Rightarrow>
     (case subscript STAFFING (Staffing i) of Inl e \<Rightarrow> Inl e | Inr s \<Rightarrow>
     (case subscript RISKS (Risk i) of Inl e \<Rightarrow> Inl e | Inr r \<Rightarrow>
        Inr (simulate v c s r (Price i) (Marketing i))))))"

text \<open>The decisions the specification calls valid: the four labels are keys of their
  tables, and the price and the budget are not negative.\<close>

definition valid_decision :: "real inputs \<Rightarrow> bool" where
  "valid_decision i \<longleftrightarrow>
     Venue i \<in> dom VENUES \<and> Catering i \<in> dom CATERING \<and>
     Staffing i \<in> dom STAFFING \<and> Risk i \<in> dom RISKS \<and>
     0 \<le> Price i \<and> 0 \<le> Marketing i"

subsection \<open>The call on Python numbers\<close>

text \<open>
  A Python number has the value of its \<open>int\<close> or of its float.
\<close>

fun number_value :: "number \<Rightarrow> real" where
  "number_value (PyInt n) = of_int n"
| "number_value (PyFloat x) = x"

text \<open>
  Line 75, \<open>3.5 * price\<close> and \<open>0.04 * marketing\<close>: the product of a float and an \<open>int\<close>
  converts the \<open>int\<close> to a float, rounding it to nearest, and raises \<open>OverflowError\<close> when
  the rounded value is beyond the largest float, \<open>2^1024 - 2^971\<close>; the \<open>int\<close>s that
  round that far are those of magnitude \<open>2^1024 - 2^970\<close> and more.
\<close>

fun to_float :: "number \<Rightarrow> error + real" where
  "to_float (PyFloat x) = Inr x"
| "to_float (PyInt n) =
     (if \<bar>n\<bar> < 2 ^ 1024 - 2 ^ 970 then Inr (fl (of_int n)) else Inl OverflowError)"

text \<open>
  Line 75, \<open>np.sqrt(marketing)\<close>: NumPy takes an \<open>int\<close> that a signed or unsigned 64-bit
  integer holds and converts it to a float; for any other \<open>int\<close> it has no square root
  and raises \<open>TypeError\<close>.
\<close>

fun np_sqrt_arg :: "number \<Rightarrow> error + real" where
  "np_sqrt_arg (PyFloat x) = Inr x"
| "np_sqrt_arg (PyInt n) =
     (if - (2 ^ 63) \<le> n \<and> n < 2 ^ 64 then Inr (fl (of_int n)) else Inl TypeError)"

text \<open>
  Line 95, \<open>revenue - total_cost\<close>: the total cost is a float (the staff cost of line 92
  is one). With an \<open>int\<close> price the revenue of line 85 is an \<open>int\<close>, the exact product,
  and the difference converts it to a float as above; with a float price the revenue is a
  float already.
\<close>

fun revenue_to_float :: "number \<Rightarrow> int \<Rightarrow> error + real" where
  "revenue_to_float (PyFloat x) a = Inr (of_int a * x)"
| "revenue_to_float (PyInt n) a =
     (if \<bar>a * n\<bar> < 2 ^ 1024 - 2 ^ 970 then Inr (of_int (a * n)) else Inl OverflowError)"

text \<open>
  Lines 63-124 on Python numbers: the four subscripts, then the conversions in the order
  line 75 performs them, then the rest of the call on the values of the numbers
  (\<open>base_demand\<close> rounds an integer value as the conversion does), then the conversion of
  line 95. No other operation of the call can raise: the division of line 98 is guarded,
  the argument of \<open>int\<close> on line 82 is at most the capacity and is never \<open>nan\<close>, and the
  \<open>int\<close> sum of line 94 is below \<open>2^65\<close> once line 75 has passed.
\<close>

definition run_simulation_dyn :: "number inputs \<Rightarrow> error + outcome" where
  "run_simulation_dyn i =
     (case subscript VENUES (Venue i) of Inl e \<Rightarrow> Inl e | Inr v \<Rightarrow>
     (case subscript CATERING (Catering i) of Inl e \<Rightarrow> Inl e | Inr c \<Rightarrow>
     (case subscript STAFFING (Staffing i) of Inl e \<Rightarrow> Inl e | Inr s \<Rightarrow>
     (case subscript RISKS (Risk i) of Inl e \<Rightarrow> Inl e | Inr r \<Rightarrow>
     (case to_float (Price i) of Inl e \<Rightarrow> Inl e | Inr _ \<Rightarrow>
     (case to_float (Marketing i) of Inl e \<Rightarrow> Inl e | Inr _ \<Rightarrow>
     (case np_sqrt_arg (Marketing i) of Inl e \<Rightarrow> Inl e | Inr _ \<Rightarrow>
       (let out = simulate v c s r (number_value (Price i)) (number_value (Marketing i))
        in case revenue_to_float (Price i) (Attendance out) of
             Inl e \<Rightarrow> Inl e | Inr _ \<Rightarrow> Inr out))))))))"

text \<open>The same decision with its numbers as floats of the same values.\<close>

definition values_of :: "number inputs \<Rightarrow> real inputs" where
  "values_of i = \<lparr>Venue = Venue i, Catering = Catering i, Staffing = Staffing i,
                   Price = number_value (Price i), Marketing = number_value (Marketing i),
                   Risk = Risk i\<rparr>"

text \<open>The numbers on which no conversion of the call fails: a float, or an \<open>int\<close> that a
  signed 64-bit integer holds.\<close>

fun float_or_int64 :: "number \<Rightarrow> bool" where
  "float_or_int64 (PyFloat x) = True"
| "float_or_int64 (PyInt n) = (- (2 ^ 63) \<le> n \<and> n < 2 ^ 63)"

text \<open>The worked scenario of the specification, the defaults of the sidebar.\<close>

definition scenario :: "real inputs" where
  "scenario = \<lparr>Venue = ''City Center'', Catering = ''Standard Buffet'',
                Staffing = ''Standard'', Price = 250, Marketing = 20000,
                Risk = ''None (Normal)''\<rparr>"

text \<open>Further decisions, used as test points: a venue filled to exactly 90 percent, a
  single guest, no guest at all, and a label that is in no table. The prices and budgets
  of the first three are binary64 numbers.\<close>

definition ninety_percent :: "real inputs" where
  "ninety_percent = \<lparr>Venue = ''Grand Hall'', Catering = ''Basic Snacks'',
       Staffing = ''Skeleton Crew'', Price = 442.75, Marketing = 0, Risk = ''None (Normal)''\<rparr>"

definition one_guest :: "real inputs" where
  "one_guest = \<lparr>Venue = ''Grand Hall'', Catering = ''Basic Snacks'',
       Staffing = ''Skeleton Crew'', Price = 571, Marketing = 0, Risk = ''None (Normal)''\<rparr>"

definition no_guests :: "real inputs" where
  "no_guests = \<lparr>Venue = ''Grand Hall'', Catering = ''Basic Snacks'',
       Staffing = ''Skeleton Crew'', Price = 700, Marketing = 100, Risk = ''None (Normal)''\<rparr>"

definition unknown_venue :: "number inputs" where
  "unknown_venue = \<lparr>Venue = ''Moon Base'', Catering = ''Standard Buffet'',
       Staffing = ''Standard'', Price = PyInt 250, Marketing = PyInt 20000,
       Risk = ''None (Normal)''\<rparr>"

text \<open>The defaults of the sidebar as the widgets pass them, as \<open>int\<close>s, and the same
  decision at a price of \<open>10 ** 400\<close>.\<close>

definition sidebar_defaults :: "number inputs" where
  "sidebar_defaults = \<lparr>Venue = ''City Center'', Catering = ''Standard Buffet'',
       Staffing = ''Standard'', Price = PyInt 250, Marketing = PyInt 20000,
       Risk = ''None (Normal)''\<rparr>"

definition huge_price :: "number inputs" where
  "huge_price = \<lparr>Venue = ''City Center'', Catering = ''Standard Buffet'',
       Staffing = ''Standard'', Price = PyInt (10 ^ 400), Marketing = PyInt 20000,
       Risk = ''None (Normal)''\<rparr>"

text \<open>
  Two decisions at which rounding decides the attendance. With heavy rain the demand of
  1300 is multiplied by the float \<open>0.7\<close>, which lies below seven tenths, and the product
  rounds to the float just below 910. At the price \<open>585.7142857142858\<close> (written out as
  a fraction) and a budget of 25 the product \<open>3.5 * price\<close> lies exactly between 2050 and
  the next float and goes to 2050, so that the demand is 1 and not just below it.
\<close>

definition heavy_rain :: "real inputs" where
  "heavy_rain = \<lparr>Venue = ''Tech Hub'', Catering = ''Standard Buffet'',
       Staffing = ''Standard'', Price = 200, Marketing = 0, Risk = ''Heavy Rain''\<rparr>"

definition demand_of_one :: "real inputs" where
  "demand_of_one = \<lparr>Venue = ''Grand Hall'', Catering = ''Basic Snacks'',
       Staffing = ''Skeleton Crew'', Price = 1287999335394743 / 2199023255552,
       Marketing = 25, Risk = ''None (Normal)''\<rparr>"

section \<open>Properties\<close>

subsection \<open>Rounding\<close>

lemma rne_of_int [simp]: "rne (of_int n) = n"
  by (simp add: rne_def)

lemma rne_0 [simp]: "rne 0 = 0"
  using rne_of_int[of 0] by simp

lemma rne_bounds: "of_int (rne x) \<le> x + 1/2" "x - 1/2 \<le> of_int (rne x)"
  unfolding rne_def Let_def by (auto split: if_splits) linarith+

lemma rne_mono: "x \<le> y \<Longrightarrow> rne x \<le> rne y"
proof -
  assume le: "x \<le> y"
  have fx: "of_int \<lfloor>x\<rfloor> \<le> x" "x < of_int \<lfloor>x\<rfloor> + 1" by linarith+
  have fy: "of_int \<lfloor>y\<rfloor> \<le> y" "y < of_int \<lfloor>y\<rfloor> + 1" by linarith+
  have ff: "\<lfloor>x\<rfloor> \<le> \<lfloor>y\<rfloor>" using le by (rule floor_mono)
  show ?thesis
  proof (cases "\<lfloor>x\<rfloor> = \<lfloor>y\<rfloor>")
    case True
    with le show ?thesis unfolding rne_def Let_def by (auto split: if_splits)
  next
    case False
    with ff have "\<lfloor>x\<rfloor> + 1 \<le> \<lfloor>y\<rfloor>" by simp
    moreover have "rne x \<le> \<lfloor>x\<rfloor> + 1" unfolding rne_def Let_def by auto
    moreover have "\<lfloor>y\<rfloor> \<le> rne y" unfolding rne_def Let_def by auto
    ultimately show ?thesis by linarith
  qed
qed

lemma rne_minus: "rne (- x) = - rne x"
proof (cases "x = of_int \<lfloor>x\<rfloor>")
  case True
  then obtain n where "x = of_int n" ..
  then have "- x = of_int (- n)" by simp
  then show ?thesis using \<open>x = of_int n\<close> by (simp only: rne_of_int)
next
  case False
  then have fm: "\<lfloor>- x\<rfloor> = - \<lfloor>x\<rfloor> - 1"
    by (metis ceiling_altdef ceiling_def add_diff_cancel_right' minus_add_cancel uminus_add_conv_diff of_int_floor_cancel)
  have fx: "of_int \<lfloor>x\<rfloor> < x" "x < of_int \<lfloor>x\<rfloor> + 1" using False by linarith+
  show ?thesis unfolding rne_def Let_def fm using fx by (auto split: if_splits)
qed

lemma floor_log2_bounds:
  assumes "0 < x"
  shows "2 powi \<lfloor>log 2 x\<rfloor> \<le> x" "x < 2 powi (\<lfloor>log 2 x\<rfloor> + 1)"
proof -
  have "2 powr (of_int \<lfloor>log 2 x\<rfloor>) \<le> x \<and> x < 2 powr (of_int \<lfloor>log 2 x\<rfloor> + 1)"
    using floor_log_eq_powr_iff[of x 2 "\<lfloor>log 2 x\<rfloor>"] assms by simp
  moreover have "(2::real) powr (of_int \<lfloor>log 2 x\<rfloor> + 1) = 2 powr (of_int (\<lfloor>log 2 x\<rfloor> + 1))"
    by simp
  ultimately show "2 powi \<lfloor>log 2 x\<rfloor> \<le> x" "x < 2 powi (\<lfloor>log 2 x\<rfloor> + 1)"
    by (simp_all only: powr_real_of_int'[of 2, simplified])
qed

lemma floor_log2_eq:
  assumes "2 powi e \<le> x" "x < 2 powi (e + 1)"
  shows "\<lfloor>log 2 x\<rfloor> = e"
proof -
  have pos: "0 < x" using assms(1) zero_less_power_int[of "2::real" e] by linarith
  have "(2::real) powr (of_int e + 1) = 2 powr (of_int (e + 1))" by simp
  then have "2 powr (of_int e) \<le> x \<and> x < 2 powr (of_int e + 1)"
    using assms by (simp only: powr_real_of_int'[of 2, simplified])
  then show ?thesis using floor_log_eq_powr_iff[of x 2 e] pos by simp
qed

lemma ulp_exp_minus [simp]: "ulp_exp (- x) = ulp_exp x"
  by (simp add: ulp_exp_def)

lemma ulp_exp_ge: "- 1074 \<le> ulp_exp x"
  by (simp add: ulp_exp_def)

lemma ulp_exp_upper:
  assumes "0 < x"
  shows "x < 2 powi (ulp_exp x + 53)"
proof -
  have "\<lfloor>log 2 x\<rfloor> + 1 \<le> ulp_exp x + 53" using assms by (simp add: ulp_exp_def)
  then have "(2::real) powi (\<lfloor>log 2 x\<rfloor> + 1) \<le> 2 powi (ulp_exp x + 53)"
    by (rule power_int_increasing) simp
  with floor_log2_bounds(2)[OF assms] show ?thesis by linarith
qed

lemma ulp_exp_lower:
  assumes "0 < x" "- 1074 < ulp_exp x"
  shows "2 powi (ulp_exp x + 52) \<le> x"
proof -
  from assms have "ulp_exp x + 52 = \<lfloor>log 2 x\<rfloor>" by (simp add: ulp_exp_def max_def split: if_splits)
  with floor_log2_bounds(1)[OF assms(1)] show ?thesis by simp
qed

lemma ulp_exp_mono:
  assumes "0 < x" "x \<le> y"
  shows "ulp_exp x \<le> ulp_exp y"
proof -
  have "log 2 x \<le> log 2 y" using assms by simp
  then have "\<lfloor>log 2 x\<rfloor> \<le> \<lfloor>log 2 y\<rfloor>" by (rule floor_mono)
  then show ?thesis using assms by (simp add: ulp_exp_def)
qed

lemma ulp_exp_normal:
  assumes "2 powi e \<le> \<bar>x\<bar>" "\<bar>x\<bar> < 2 powi (e + 1)" "- 1022 \<le> e"
  shows "ulp_exp x = e - 52"
  using floor_log2_eq[OF assms(1,2)] assms(3) by (simp add: ulp_exp_def)

lemma fl_0 [simp]: "fl 0 = 0"
  by (simp add: fl_def)

lemma fl_minus: "fl (- x) = - fl x"
  by (simp add: fl_def rne_minus)

lemma fl_nonneg: "0 \<le> x \<Longrightarrow> 0 \<le> fl x"
proof -
  assume "0 \<le> x"
  then have "0 \<le> x / 2 powi ulp_exp x" by simp
  then have "rne 0 \<le> rne (x / 2 powi ulp_exp x)" by (rule rne_mono)
  then show ?thesis by (simp add: fl_def)
qed

lemma fl_upper:
  assumes "0 < x"
  shows "fl x \<le> 2 powi (ulp_exp x + 53)"
proof -
  let ?u = "(2::real) powi ulp_exp x"
  have u: "0 < ?u" by simp
  have "x / ?u \<le> 2 powi (ulp_exp x + 53) / ?u"
    using ulp_exp_upper[OF assms] u by (simp add: divide_right_mono)
  also have "\<dots> = 2 ^ 53" by (simp add: power_int_add)
  finally have "rne (x / ?u) \<le> rne (of_int (2 ^ 53))" by (intro rne_mono) simp
  then have "rne (x / ?u) \<le> 2 ^ 53" by (simp only: rne_of_int)
  then have "(of_int (rne (x / ?u)) :: real) \<le> 2 ^ 53" by (metis of_int_le_iff of_int_numeral of_int_power)
  then have "of_int (rne (x / ?u)) * ?u \<le> 2 ^ 53 * ?u" using u by (simp only: mult_right_mono less_imp_le)
  then show ?thesis by (simp add: fl_def power_int_add mult.commute)
qed

lemma fl_lower:
  assumes "0 < x" "- 1074 < ulp_exp x"
  shows "2 powi (ulp_exp x + 52) \<le> fl x"
proof -
  let ?u = "(2::real) powi ulp_exp x"
  have u: "0 < ?u" by simp
  have "2 powi (ulp_exp x + 52) / ?u \<le> x / ?u"
    using ulp_exp_lower[OF assms] u by (simp add: divide_right_mono)
  moreover have "2 powi (ulp_exp x + 52) / ?u = 2 ^ 52" by (simp add: power_int_add)
  ultimately have "rne (of_int (2 ^ 52)) \<le> rne (x / ?u)" by (intro rne_mono) simp
  then have "2 ^ 52 \<le> rne (x / ?u)" by (simp only: rne_of_int)
  then have "2 ^ 52 \<le> (of_int (rne (x / ?u)) :: real)" by (metis of_int_le_iff of_int_numeral of_int_power)
  then have "2 ^ 52 * ?u \<le> of_int (rne (x / ?u)) * ?u" using u by (simp only: mult_right_mono less_imp_le)
  then show ?thesis by (simp add: fl_def power_int_add mult.commute)
qed

lemma fl_mono_pos:
  assumes "0 < x" "x \<le> y"
  shows "fl x \<le> fl y"
proof (cases "ulp_exp x = ulp_exp y")
  case True
  let ?u = "(2::real) powi ulp_exp y"
  have "x / ?u \<le> y / ?u" using assms by (simp add: divide_right_mono)
  then have "rne (x / ?u) \<le> rne (y / ?u)" by (rule rne_mono)
  then have "(of_int (rne (x / ?u)) :: real) * ?u \<le> of_int (rne (y / ?u)) * ?u"
    by (simp add: mult_right_mono)
  then show ?thesis by (simp add: fl_def True)
next
  case False
  with ulp_exp_mono[OF assms] have lt: "ulp_exp x < ulp_exp y" by simp
  have y: "0 < y" using assms by linarith
  have "- 1074 < ulp_exp y" using lt ulp_exp_ge[of x] by linarith
  then have "2 powi (ulp_exp y + 52) \<le> fl y" by (rule fl_lower[OF y])
  moreover have "fl x \<le> 2 powi (ulp_exp x + 53)" by (rule fl_upper[OF assms(1)])
  moreover have "(2::real) powi (ulp_exp x + 53) \<le> 2 powi (ulp_exp y + 52)"
    using lt by (intro power_int_increasing) simp_all
  ultimately show ?thesis by linarith
qed

lemma fl_mono:
  assumes "x \<le> y"
  shows "fl x \<le> fl y"
proof -
  consider "0 < x" | "x \<le> 0" "0 \<le> y" | "y < 0" by linarith
  then show ?thesis
  proof cases
    case 1
    then show ?thesis using assms by (rule fl_mono_pos)
  next
    case 2
    then have "fl x \<le> 0" using fl_nonneg[of "- x"] by (simp add: fl_minus)
    moreover have "0 \<le> fl y" using 2 by (simp add: fl_nonneg)
    ultimately show ?thesis by linarith
  next
    case 3
    then have "fl (- y) \<le> fl (- x)" using assms by (intro fl_mono_pos) simp_all
    then show ?thesis by (simp add: fl_minus)
  qed
qed

lemma fl_exact:
  assumes x: "x = of_int n * 2 powi k" and n: "\<bar>n\<bar> < 2 ^ 53" and k: "- 1074 \<le> k"
  shows "fl x = x"
proof (cases "n = 0")
  case True
  with x show ?thesis by simp
next
  case False
  then have ax: "0 < \<bar>x\<bar>" using x by simp
  have "\<bar>x\<bar> = of_int \<bar>n\<bar> * 2 powi k" using x by (simp add: abs_mult)
  moreover have "(of_int \<bar>n\<bar> :: real) < 2 ^ 53" using n by (metis of_int_less_iff of_int_numeral of_int_power)
  ultimately have "\<bar>x\<bar> < 2 ^ 53 * 2 powi k" by (simp add: mult_strict_right_mono)
  also have "\<dots> = 2 powi (k + 53)" by (simp add: power_int_add)
  finally have up: "\<bar>x\<bar> < 2 powi (k + 53)" .
  have "\<lfloor>log 2 \<bar>x\<bar>\<rfloor> < k + 53"
  proof (rule ccontr)
    assume "\<not> \<lfloor>log 2 \<bar>x\<bar>\<rfloor> < k + 53"
    then have "(2::real) powi (k + 53) \<le> 2 powi \<lfloor>log 2 \<bar>x\<bar>\<rfloor>"
      by (intro power_int_increasing) simp_all
    with floor_log2_bounds(1)[OF ax] up show False by linarith
  qed
  with k have "ulp_exp x \<le> k" by (simp add: ulp_exp_def)
  define u where "u = ulp_exp x"
  have u: "u \<le> k" using \<open>ulp_exp x \<le> k\<close> by (simp add: u_def)
  have flu: "fl x = of_int (rne (x / 2 powi u)) * 2 powi u" by (simp add: fl_def u_def)
  define j where "j = nat (k - u)"
  have "k = u + int j" using u by (simp add: j_def)
  then have "(2::real) powi k = 2 powi u * 2 ^ j" by (simp add: power_int_add)
  then have xu: "x = of_int (n * 2 ^ j) * 2 powi u" using x by simp
  then have "x / 2 powi u = of_int (n * 2 ^ j)" by simp
  then have "rne (x / 2 powi u) = n * 2 ^ j" by (simp only: rne_of_int)
  then have "fl x = of_int (n * 2 ^ j) * 2 powi u" by (simp only: flu)
  then show ?thesis by (simp only: xu [symmetric])
qed

lemma fl_of_int: "\<bar>n\<bar> < 2 ^ 53 \<Longrightarrow> fl (of_int n) = of_int n"
  using fl_exact[of "of_int n" n 0] by simp

lemma fl_normal:
  assumes "2 powi e \<le> \<bar>x\<bar>" "\<bar>x\<bar> < 2 powi (e + 1)" "- 1022 \<le> e"
  shows "fl x = of_int (rne (x / 2 powi (e - 52))) * 2 powi (e - 52)"
  by (simp add: fl_def ulp_exp_normal[OF assms])


text \<open>Rounding changes nothing on a number that is a float already.\<close>

lemma rne_ulp_pos:
  assumes "0 < x"
  shows "0 \<le> rne (x / 2 powi ulp_exp x)" "rne (x / 2 powi ulp_exp x) \<le> 2 ^ 53"
proof -
  let ?u = "(2::real) powi ulp_exp x"
  have u: "0 < ?u" by simp
  have "0 \<le> x / ?u" using assms by simp
  then have "rne 0 \<le> rne (x / ?u)" by (rule rne_mono)
  then show "0 \<le> rne (x / ?u)" by simp
  have "x / ?u \<le> 2 powi (ulp_exp x + 53) / ?u"
    using ulp_exp_upper[OF assms] u by (simp add: divide_right_mono)
  also have "\<dots> = 2 ^ 53" by (simp add: power_int_add)
  finally have "rne (x / ?u) \<le> rne (of_int (2 ^ 53))" by (intro rne_mono) simp
  then show "rne (x / ?u) \<le> 2 ^ 53" by (simp only: rne_of_int)
qed

lemma rne_ulp_bound: "\<bar>rne (x / 2 powi ulp_exp x)\<bar> \<le> 2 ^ 53"
proof -
  consider "0 < x" | "x = 0" | "0 < - x" by linarith
  then show ?thesis
  proof cases
    case 1
    then show ?thesis using rne_ulp_pos[of x] by simp
  next
    case 2
    then show ?thesis by simp
  next
    case 3
    have "rne (- x / 2 powi ulp_exp (- x)) = - rne (x / 2 powi ulp_exp x)"
      using rne_minus[of "x / 2 powi ulp_exp x"] by simp
    then show ?thesis using rne_ulp_pos[OF 3] by simp
  qed
qed

lemma fl_idem: "fl (fl x) = fl x"
proof -
  define n where "n = rne (x / 2 powi ulp_exp x)"
  define u where "u = ulp_exp x"
  have f: "fl x = of_int n * 2 powi u" by (simp add: fl_def n_def u_def)
  have u: "- 1074 \<le> u" using ulp_exp_ge[of x] by (simp add: u_def)
  have n: "\<bar>n\<bar> \<le> 2 ^ 53" using rne_ulp_bound[of x] by (simp add: n_def)
  show ?thesis
  proof (cases "\<bar>n\<bar> < 2 ^ 53")
    case True
    then show ?thesis using fl_exact[OF f _ u] by simp
  next
    case False
    with n have "n = 2 ^ 53 \<or> n = - (2 ^ 53)" by linarith
    then have "fl x = of_int (n div 2 ^ 53) * 2 powi (u + 53)"
      unfolding f by (auto simp: power_int_add)
    moreover have "\<bar>n div 2 ^ 53\<bar> < 2 ^ 53" using \<open>n = 2 ^ 53 \<or> n = - (2 ^ 53)\<close> by auto
    moreover have "- 1074 \<le> u + 53" using u by simp
    ultimately show ?thesis by (rule fl_exact)
  qed
qed

lemma fl_numeral: "numeral w < (2::int) ^ 53 \<Longrightarrow> fl (numeral w) = numeral w"
  using fl_of_int[of "numeral w"] by simp

lemma fl_neg_numeral: "numeral w < (2::int) ^ 53 \<Longrightarrow> fl (- numeral w) = - numeral w"
  using fl_of_int[of "- numeral w"] by simp

lemma fl_1 [simp]: "fl 1 = 1"
  using fl_of_int[of 1] by simp

text \<open>The float literals \<open>0.04\<close> and \<open>0.7\<close>.\<close>

lemma fl_004: "fl 0.04 = 5764607523034235 / 144115188075855872"
  using fl_normal[of "-5" "0.04"] by (simp add: rne_def)

lemma fl_07: "fl 0.7 = 3152519739159347 / 4503599627370496"
  using fl_normal[of "-1" "0.7"] by (simp add: rne_def)

subsection \<open>The tables and the subscripts\<close>

lemma VENUES_inv:
  "VENUES l = Some v \<Longrightarrow> 0 < Capacity v \<and> 0 \<le> Fixed_Cost v \<and> 0 \<le> Vibe v \<and> Vibe v \<le> 10"
  by (auto simp: VENUES_def split: if_splits)

lemma CATERING_inv:
  "CATERING l = Some c \<Longrightarrow> 0 \<le> Cost c \<and> 0 \<le> Quality c \<and> Quality c \<le> 10"
  by (auto simp: CATERING_def split: if_splits)

lemma STAFFING_inv: "STAFFING l = Some s \<Longrightarrow> 0 < Ratio s \<and> 0 \<le> CostPer s"
  by (auto simp: STAFFING_def split: if_splits)

lemma RISKS_inv: "RISKS l = Some r \<Longrightarrow> 0 \<le> DemandMult r"
  by (auto simp: RISKS_def split: if_splits)

lemma scenario_lookups:
  "VENUES ''City Center'' = Some \<lparr>Capacity = 2000, Fixed_Cost = 25000, Vibe = 9\<rparr>"
  "CATERING ''Standard Buffet'' = Some \<lparr>Cost = 35, Quality = 6\<rparr>"
  "STAFFING ''Standard'' = Some \<lparr>Ratio = 2, CostPer = 250\<rparr>"
  "RISKS ''None (Normal)'' = Some \<lparr>DemandMult = 1, SatPenalty = 0\<rparr>"
  by (simp_all add: VENUES_def CATERING_def STAFFING_def RISKS_def)

lemma run_simulation_Inr:
  "VENUES (Venue i) = Some v \<Longrightarrow> CATERING (Catering i) = Some c \<Longrightarrow>
   STAFFING (Staffing i) = Some s \<Longrightarrow> RISKS (Risk i) = Some r \<Longrightarrow>
   run_simulation i = Inr (simulate v c s r (Price i) (Marketing i))"
  by (simp add: run_simulation_def subscript_def)

subsection \<open>The worked scenario\<close>

lemma scenario_attendance:
  "attendance \<lparr>Capacity = 2000, Fixed_Cost = 25000, Vibe = 9\<rparr>
     \<lparr>DemandMult = 1, SatPenalty = 0\<rparr> 250 20000 = 2000"
proof -
  have a: "fl (fl (2000 - fl (3.5 * fl 250))) = 1125"
    by (simp add: fl_numeral)
  have "0 \<le> fl (fl 0.04 * fl 20000)"
    by (intro fl_nonneg mult_nonneg_nonneg) simp_all
  then have "fl 1125 \<le> fl (fl (2000 - fl (3.5 * fl 250)) + fl (fl 0.04 * fl 20000))"
    by (intro fl_mono) (simp add: fl_numeral)
  then have t1: "1125 \<le> fl (fl (2000 - fl (3.5 * fl 250)) + fl (fl 0.04 * fl 20000))"
    by (simp add: fl_numeral)
  have "(100::real) \<le> sqrt 20000"
    by (rule real_le_rsqrt) simp
  then have "fl 100 \<le> fl (sqrt (fl 20000))"
    by (intro fl_mono) (simp add: fl_numeral)
  then have "fl 1000 \<le> fl (10 * fl (sqrt (fl 20000)))"
    by (intro fl_mono) (simp add: fl_numeral)
  then have t2: "1000 \<le> fl (10 * fl (sqrt (fl 20000)))"
    by (simp add: fl_numeral)
  have "fl 2125 \<le> fl (fl (fl (2000 - fl (3.5 * fl 250)) + fl (fl 0.04 * fl 20000))
      + fl (10 * fl (sqrt (fl 20000))))"
    using t1 t2 by (intro fl_mono) linarith
  then have "2125 \<le> base_demand 250 20000"
    by (simp add: base_demand_def fl_numeral max_def)
  then have "fl 2000 \<le> fl (base_demand 250 20000 * fl 1)"
    by (intro fl_mono) simp
  then have "2000 \<le> risk_demand \<lparr>DemandMult = 1, SatPenalty = 0\<rparr> 250 20000"
    by (simp add: risk_demand_def fl_numeral)
  then show ?thesis
    by (simp add: attendance_def py_int_def min_def)
qed

lemma scenario_outcome:
  "run_simulation scenario =
     Inr \<lparr>Attendance = 2000, Revenue = 500000, Total_Cost = 125000, Profit = 375000,
          Satisfaction = 50.5, Score = 119, Crowding = 100,
          Details = \<lparr>Venue_Cost = 25000, Marketing_Cost = 20000,
                     Catering_Cost = 70000, Staff_Cost = 10000\<rparr>\<rparr>"
proof -
  have "run_simulation scenario =
      Inr (simulate \<lparr>Capacity = 2000, Fixed_Cost = 25000, Vibe = 9\<rparr> \<lparr>Cost = 35, Quality = 6\<rparr>
        \<lparr>Ratio = 2, CostPer = 250\<rparr> \<lparr>DemandMult = 1, SatPenalty = 0\<rparr> 250 20000)"
    using run_simulation_Inr[of scenario] by (simp add: scenario_def scenario_lookups)
  also have "simulate \<lparr>Capacity = 2000, Fixed_Cost = 25000, Vibe = 9\<rparr> \<lparr>Cost = 35, Quality = 6\<rparr>
        \<lparr>Ratio = 2, CostPer = 250\<rparr> \<lparr>DemandMult = 1, SatPenalty = 0\<rparr> 250 20000 =
      \<lparr>Attendance = 2000, Revenue = 500000, Total_Cost = 125000, Profit = 375000,
       Satisfaction = 50.5, Score = 119, Crowding = 100,
       Details = \<lparr>Venue_Cost = 25000, Marketing_Cost = 20000,
                  Catering_Cost = 70000, Staff_Cost = 10000\<rparr>\<rparr>"
    by (simp add: simulate_def scenario_attendance num_staff_def crowding_def
        crowding_penalty_def sat_raw_def)
  finally show ?thesis .
qed

subsection \<open>Facts about the steps\<close>

lemma valid_decision_run:
  assumes "valid_decision i"
  obtains v c s r where "VENUES (Venue i) = Some v" "CATERING (Catering i) = Some c"
    "STAFFING (Staffing i) = Some s" "RISKS (Risk i) = Some r"
    "run_simulation i = Inr (simulate v c s r (Price i) (Marketing i))"
proof -
  from assms obtain v c s r where l: "VENUES (Venue i) = Some v" "CATERING (Catering i) = Some c"
    "STAFFING (Staffing i) = Some s" "RISKS (Risk i) = Some r"
    by (auto simp: valid_decision_def)
  with run_simulation_Inr[OF l] that show thesis by blast
qed

lemma scenario_valid: "valid_decision scenario"
  by (simp add: valid_decision_def scenario_def dom_def scenario_lookups)

lemma simulate_fields:
  "Attendance (simulate v c s r p m) = attendance v r p m"
  "Revenue (simulate v c s r p m) = of_int (attendance v r p m) * p"
  "Satisfaction (simulate v c s r p m) =
     min 100 (max 0 (sat_raw v c s r (crowding_penalty (crowding (attendance v r p m) v))))"
  "Score (simulate v c s r p m) =
     max 0 (Profit (simulate v c s r p m)) / 200000 * 50 + Satisfaction (simulate v c s r p m) * 0.5"
  "Profit (simulate v c s r p m) = Revenue (simulate v c s r p m) - Total_Cost (simulate v c s r p m)"
  "Total_Cost (simulate v c s r p m) =
     of_int (Fixed_Cost v) + m + of_int (attendance v r p m * Cost c)
       + of_int (num_staff (attendance v r p m) s) * of_int (CostPer s)"
  "Venue_Cost (Details (simulate v c s r p m)) = Fixed_Cost v"
  "Marketing_Cost (Details (simulate v c s r p m)) = m"
  "Catering_Cost (Details (simulate v c s r p m)) = attendance v r p m * Cost c"
  "Staff_Cost (Details (simulate v c s r p m)) =
     of_int (num_staff (attendance v r p m) s) * of_int (CostPer s)"
  "Crowding (simulate v c s r p m) = crowding (attendance v r p m) v * 100"
  by (simp_all add: simulate_def Let_def)

lemma base_demand_nonneg: "0 \<le> base_demand p m"
  by (simp add: base_demand_def)

lemma risk_demand_nonneg: "0 \<le> DemandMult r \<Longrightarrow> 0 \<le> risk_demand r p m"
  unfolding risk_demand_def
  by (intro fl_nonneg mult_nonneg_nonneg base_demand_nonneg)

lemma attendance_floor:
  assumes "0 \<le> DemandMult r" "0 \<le> Capacity v"
  shows "attendance v r p m = \<lfloor>min (risk_demand r p m) (of_int (Capacity v))\<rfloor>"
  using assms by (simp add: attendance_def py_int_def risk_demand_nonneg)

lemma attendance_bounds:
  assumes "0 \<le> DemandMult r" "0 \<le> Capacity v"
  shows "0 \<le> attendance v r p m" "attendance v r p m \<le> Capacity v"
proof -
  let ?x = "min (risk_demand r p m) (of_int (Capacity v))"
  have "0 \<le> ?x" using assms by (simp add: risk_demand_nonneg)
  then show "0 \<le> attendance v r p m" by (simp add: attendance_floor[OF assms])
  have "?x \<le> of_int (Capacity v)" by simp
  then have "\<lfloor>?x\<rfloor> \<le> \<lfloor>of_int (Capacity v) :: real\<rfloor>" by (rule floor_mono)
  then show "attendance v r p m \<le> Capacity v" by (simp add: attendance_floor[OF assms])
qed

lemma base_demand_antimono_price:
  assumes "p1 \<le> p2"
  shows "base_demand p2 m \<le> base_demand p1 m"
proof -
  have "fl p1 \<le> fl p2" using assms by (rule fl_mono)
  then have "fl (3.5 * fl p1) \<le> fl (3.5 * fl p2)" by (intro fl_mono) simp
  then have "fl (2000 - fl (3.5 * fl p2)) \<le> fl (2000 - fl (3.5 * fl p1))"
    by (intro fl_mono) simp
  then have "fl (fl (2000 - fl (3.5 * fl p2)) + fl (fl 0.04 * fl m))
      \<le> fl (fl (2000 - fl (3.5 * fl p1)) + fl (fl 0.04 * fl m))"
    by (intro fl_mono) simp
  then have "fl (fl (fl (2000 - fl (3.5 * fl p2)) + fl (fl 0.04 * fl m))
        + fl (10 * fl (sqrt (fl m))))
      \<le> fl (fl (fl (2000 - fl (3.5 * fl p1)) + fl (fl 0.04 * fl m))
        + fl (10 * fl (sqrt (fl m))))"
    by (intro fl_mono) simp
  then show ?thesis by (simp add: base_demand_def max_def)
qed

lemma base_demand_mono_marketing:
  assumes "0 \<le> m1" "m1 \<le> m2"
  shows "base_demand p m1 \<le> base_demand p m2"
proof -
  have m: "fl m1 \<le> fl m2" using assms(2) by (rule fl_mono)
  have "0 \<le> fl 0.04" by (rule fl_nonneg) simp
  with m have "fl 0.04 * fl m1 \<le> fl 0.04 * fl m2"
    by (rule mult_left_mono)
  then have "fl (fl 0.04 * fl m1) \<le> fl (fl 0.04 * fl m2)"
    by (rule fl_mono)
  then have a: "fl (fl (2000 - fl (3.5 * fl p)) + fl (fl 0.04 * fl m1))
      \<le> fl (fl (2000 - fl (3.5 * fl p)) + fl (fl 0.04 * fl m2))"
    by (intro fl_mono) simp
  have "sqrt (fl m1) \<le> sqrt (fl m2)" using m by simp
  then have "fl (sqrt (fl m1)) \<le> fl (sqrt (fl m2))" by (rule fl_mono)
  then have b: "fl (10 * fl (sqrt (fl m1))) \<le> fl (10 * fl (sqrt (fl m2)))"
    by (intro fl_mono) simp
  have "fl (fl (2000 - fl (3.5 * fl p)) + fl (fl 0.04 * fl m1))
        + fl (10 * fl (sqrt (fl m1)))
      \<le> fl (fl (2000 - fl (3.5 * fl p)) + fl (fl 0.04 * fl m2))
        + fl (10 * fl (sqrt (fl m2)))"
    using a b by (rule add_mono)
  then have "fl (fl (fl (2000 - fl (3.5 * fl p)) + fl (fl 0.04 * fl m1))
        + fl (10 * fl (sqrt (fl m1))))
      \<le> fl (fl (fl (2000 - fl (3.5 * fl p)) + fl (fl 0.04 * fl m2))
        + fl (10 * fl (sqrt (fl m2))))"
    by (rule fl_mono)
  then have "max 0 (fl (fl (fl (2000 - fl (3.5 * fl p)) + fl (fl 0.04 * fl m1))
        + fl (10 * fl (sqrt (fl m1)))))
      \<le> max 0 (fl (fl (fl (2000 - fl (3.5 * fl p)) + fl (fl 0.04 * fl m2))
        + fl (10 * fl (sqrt (fl m2)))))"
    by (rule max.mono[OF order_refl])
  with assms show ?thesis by (simp add: base_demand_def)
qed

lemma num_staff_div: "num_staff a s = - ((- (a * Ratio s)) div 100)"
proof -
  have "(of_int a / 100) * of_int (Ratio s) = (of_int (a * Ratio s) :: real) / of_int 100"
    by simp
  then have "num_staff a s = \<lceil>(of_int (a * Ratio s) :: real) / of_int 100\<rceil>"
    unfolding num_staff_def by (simp only:)
  also have "\<dots> = - ((- (a * Ratio s)) div 100)"
    by (rule ceiling_divide_eq_div)
  finally show ?thesis .
qed

subsection \<open>The test points\<close>

lemma small_lookups:
  "VENUES ''Grand Hall'' = Some \<lparr>Capacity = 500, Fixed_Cost = 5000, Vibe = 8\<rparr>"
  "CATERING ''Basic Snacks'' = Some \<lparr>Cost = 15, Quality = 2\<rparr>"
  "STAFFING ''Skeleton Crew'' = Some \<lparr>Ratio = 1, CostPer = 200\<rparr>"
  "VENUES ''Moon Base'' = None"
  "VENUES ''Tech Hub'' = Some \<lparr>Capacity = 1000, Fixed_Cost = 12000, Vibe = 6\<rparr>"
  "RISKS ''Heavy Rain'' = Some \<lparr>DemandMult = 0.7, SatPenalty = - 10\<rparr>"
  by (simp_all add: VENUES_def CATERING_def STAFFING_def RISKS_def)

lemma small_valid:
  "valid_decision ninety_percent" "valid_decision one_guest" "valid_decision no_guests"
  "valid_decision heavy_rain" "valid_decision demand_of_one"
  by (simp_all add: valid_decision_def ninety_percent_def one_guest_def no_guests_def
      heavy_rain_def demand_of_one_def dom_def small_lookups scenario_lookups)

text \<open>The demand of line 75 without marketing, from the three roundings that remain.\<close>

lemma base_demand_no_marketing:
  assumes "fl p = p" "fl (3.5 * p) = a" "fl (2000 - a) = b" "fl b = b"
  shows "base_demand p 0 = max 0 b"
proof -
  have "fl (fl (fl (2000 - fl (3.5 * fl p)) + fl (fl 0.04 * fl 0))
      + fl (10 * fl (sqrt (fl 0)))) = b"
    by (simp only: assms fl_0 mult_zero_right add_0_right real_sqrt_zero)
  then show ?thesis by (simp add: base_demand_def)
qed

lemma small_base:
  "base_demand 442.75 0 = 450.375" "base_demand 571 0 = 1.5"
  "base_demand 200 0 = 1300" "base_demand 100 0 = 1650" "base_demand 250 0 = 1125"
proof -
  have "fl 442.75 = 442.75" using fl_exact[of "442.75" 1771 "- 2"] by simp
  moreover have "fl (3.5 * 442.75) = 1549.625"
    using fl_exact[of "1549.625" 12397 "- 3"] by simp
  moreover have "fl (2000 - 1549.625) = 450.375" "fl 450.375 = 450.375"
    using fl_exact[of "450.375" 3603 "- 3"] by simp_all
  ultimately show "base_demand 442.75 0 = 450.375"
    using base_demand_no_marketing[of "442.75" "1549.625" "450.375"] by simp
  have "fl (3.5 * 571) = 1998.5" using fl_exact[of "1998.5" 3997 "- 1"] by simp
  moreover have "fl (2000 - 1998.5) = 1.5" "fl 1.5 = 1.5"
    using fl_exact[of "1.5" 3 "- 1"] by simp_all
  ultimately show "base_demand 571 0 = 1.5"
    using base_demand_no_marketing[of 571 "1998.5" "1.5"] by (simp add: fl_numeral)
  show "base_demand 200 0 = 1300"
    using base_demand_no_marketing[of 200 700 1300] by (simp add: fl_numeral)
  show "base_demand 100 0 = 1650"
    using base_demand_no_marketing[of 100 350 1650] by (simp add: fl_numeral)
  show "base_demand 250 0 = 1125"
    using base_demand_no_marketing[of 250 875 1125] by (simp add: fl_numeral)
qed

text \<open>With a budget of 100 and a price of 700 every sum on line 75 is negative.\<close>

lemma no_guests_base: "base_demand 700 100 = 0"
proof -
  have p: "fl 700 = 700" and m: "fl 100 = 100" by (simp_all add: fl_numeral)
  have a: "fl (3.5 * 700) = 2450" by (simp add: fl_numeral)
  have b: "fl (2000 - 2450) = - 450" by (simp add: fl_neg_numeral)
  have c: "fl (fl 0.04 * 100) = 4"
    unfolding fl_004
    using fl_normal[of 2 "5764607523034235 / 144115188075855872 * 100"]
    by (simp add: rne_def)
  have d: "fl (- 450 + 4) = - 446" by (simp add: fl_neg_numeral)
  have s: "sqrt 100 = 10" by (rule real_sqrt_unique) simp_all
  have e: "fl 10 = 10" "fl (10 * 10) = 100" by (simp_all add: fl_numeral)
  have f: "fl (- 446 + 100) = - 346" by (simp add: fl_neg_numeral)
  have "fl (fl (fl (2000 - fl (3.5 * fl 700)) + fl (fl 0.04 * fl 100))
      + fl (10 * fl (sqrt (fl 100)))) = - 346"
    by (simp only: p m a b c d s e f)
  then show ?thesis by (simp add: base_demand_def)
qed

text \<open>The tie on line 75: \<open>3.5 * price\<close> is half a unit in the last place above 2050.\<close>

lemma demand_of_one_base: "base_demand (1287999335394743 / 2199023255552) 25 = 1"
proof -
  have p: "fl (1287999335394743 / 2199023255552) = 1287999335394743 / 2199023255552"
    using fl_exact[of "1287999335394743 / 2199023255552" 1287999335394743 "- 41"] by simp
  have m: "fl 25 = 25" by (simp add: fl_numeral)
  have a: "fl (3.5 * (1287999335394743 / 2199023255552)) = 2050"
    using fl_normal[of 11 "3.5 * (1287999335394743 / 2199023255552)"]
    by (simp add: rne_def)
  have b: "fl (2000 - 2050) = - 50" by (simp add: fl_neg_numeral)
  have c: "fl (fl 0.04 * 25) = 1"
    unfolding fl_004
    using fl_normal[of 0 "5764607523034235 / 144115188075855872 * 25"]
    by (simp add: rne_def)
  have d: "fl (- 50 + 1) = - 49" by (simp add: fl_neg_numeral)
  have s: "sqrt 25 = 5" by (rule real_sqrt_unique) simp_all
  have e: "fl 5 = 5" "fl (10 * 5) = 50" by (simp_all add: fl_numeral)
  have f: "fl (- 49 + 50) = 1" by simp
  have "fl (fl (fl (2000 - fl (3.5 * fl (1287999335394743 / 2199023255552)))
        + fl (fl 0.04 * fl 25)) + fl (10 * fl (sqrt (fl 25)))) = 1"
    by (simp only: p m a b c d s e f)
  then show ?thesis by (simp add: base_demand_def)
qed

text \<open>With a budget of 10000 and a price of 250 every operation on line 75 is exact.\<close>

lemma budget_10000_base: "base_demand 250 10000 = 2525"
proof -
  have p: "fl 250 = 250" and m: "fl 10000 = 10000" by (simp_all add: fl_numeral)
  have a: "fl (3.5 * 250) = 875" by (simp add: fl_numeral)
  have b: "fl (2000 - 875) = 1125" by (simp add: fl_numeral)
  have c: "fl (fl 0.04 * 10000) = 400"
    unfolding fl_004
    using fl_normal[of 8 "5764607523034235 / 144115188075855872 * 10000"]
    by (simp add: rne_def)
  have d: "fl (1125 + 400) = 1525" by (simp add: fl_numeral)
  have s: "sqrt 10000 = 100" by (rule real_sqrt_unique) simp_all
  have e: "fl 100 = 100" "fl (10 * 100) = 1000" by (simp_all add: fl_numeral)
  have f: "fl (1525 + 1000) = 2525" by (simp add: fl_numeral)
  have "fl (fl (fl (2000 - fl (3.5 * fl 250)) + fl (fl 0.04 * fl 10000))
      + fl (10 * fl (sqrt (fl 10000)))) = 2525"
    by (simp only: p m a b c d s e f)
  then show ?thesis by (simp add: base_demand_def)
qed

text \<open>Line 78 at the test points; with heavy rain the product is rounded down.\<close>

lemma small_risk_demand:
  "risk_demand \<lparr>DemandMult = 1, SatPenalty = 0\<rparr> 442.75 0 = 450.375"
  "risk_demand \<lparr>DemandMult = 1, SatPenalty = 0\<rparr> 571 0 = 1.5"
  "risk_demand \<lparr>DemandMult = 1, SatPenalty = 0\<rparr> 700 100 = 0"
  "risk_demand \<lparr>DemandMult = 1, SatPenalty = 0\<rparr> (1287999335394743 / 2199023255552) 25 = 1"
  "risk_demand \<lparr>DemandMult = 0.7, SatPenalty = - 10\<rparr> 200 0
     = 8004444650209279 / 8796093022208"
proof -
  have a: "fl 450.375 = 450.375" using fl_exact[of "450.375" 3603 "- 3"] by simp
  show "risk_demand \<lparr>DemandMult = 1, SatPenalty = 0\<rparr> 442.75 0 = 450.375"
    unfolding risk_demand_def small_base by (simp only: risk.simps fl_1 mult_1_right a)
  have b: "fl 1.5 = 1.5" using fl_exact[of "1.5" 3 "- 1"] by simp
  show "risk_demand \<lparr>DemandMult = 1, SatPenalty = 0\<rparr> 571 0 = 1.5"
    unfolding risk_demand_def small_base by (simp only: risk.simps fl_1 mult_1_right b)
  show "risk_demand \<lparr>DemandMult = 1, SatPenalty = 0\<rparr> 700 100 = 0"
    unfolding risk_demand_def no_guests_base by (simp only: mult_zero_left fl_0)
  show "risk_demand \<lparr>DemandMult = 1, SatPenalty = 0\<rparr> (1287999335394743 / 2199023255552) 25 = 1"
    unfolding risk_demand_def demand_of_one_base by (simp only: risk.simps fl_1 mult_1_right)
  have c: "fl (1300 * (3152519739159347 / 4503599627370496))
      = 8004444650209279 / 8796093022208"
    using fl_normal[of 9 "1300 * (3152519739159347 / 4503599627370496)"]
    by (simp add: rne_def)
  show "risk_demand \<lparr>DemandMult = 0.7, SatPenalty = - 10\<rparr> 200 0
     = 8004444650209279 / 8796093022208"
    unfolding risk_demand_def small_base by (simp only: risk.simps fl_07 c)
qed

lemma small_attendance:
  "attendance \<lparr>Capacity = 500, Fixed_Cost = 5000, Vibe = 8\<rparr> \<lparr>DemandMult = 1, SatPenalty = 0\<rparr> 442.75 0 = 450"
  "attendance \<lparr>Capacity = 500, Fixed_Cost = 5000, Vibe = 8\<rparr> \<lparr>DemandMult = 1, SatPenalty = 0\<rparr> 571 0 = 1"
  "attendance \<lparr>Capacity = 500, Fixed_Cost = 5000, Vibe = 8\<rparr> \<lparr>DemandMult = 1, SatPenalty = 0\<rparr> 700 100 = 0"
  "attendance \<lparr>Capacity = 500, Fixed_Cost = 5000, Vibe = 8\<rparr> \<lparr>DemandMult = 1, SatPenalty = 0\<rparr>
     (1287999335394743 / 2199023255552) 25 = 1"
  "attendance \<lparr>Capacity = 1000, Fixed_Cost = 12000, Vibe = 6\<rparr>
     \<lparr>DemandMult = 0.7, SatPenalty = - 10\<rparr> 200 0 = 909"
  unfolding attendance_def small_risk_demand py_int_def
  by (simp_all add: floor_eq_iff)

lemma ninety_percent_outcome:
  "run_simulation ninety_percent =
     Inr \<lparr>Attendance = 450, Revenue = 199237.5, Total_Cost = 12750, Profit = 186487.5,
          Satisfaction = 41, Score = 67.121875, Crowding = 90,
          Details = \<lparr>Venue_Cost = 5000, Marketing_Cost = 0,
                     Catering_Cost = 6750, Staff_Cost = 1000\<rparr>\<rparr>"
proof -
  have "run_simulation ninety_percent =
      Inr (simulate \<lparr>Capacity = 500, Fixed_Cost = 5000, Vibe = 8\<rparr> \<lparr>Cost = 15, Quality = 2\<rparr>
        \<lparr>Ratio = 1, CostPer = 200\<rparr> \<lparr>DemandMult = 1, SatPenalty = 0\<rparr> 442.75 0)"
    using run_simulation_Inr[of ninety_percent]
    by (simp add: ninety_percent_def small_lookups scenario_lookups)
  then show ?thesis
    unfolding simulate_def small_attendance
    by (simp add: num_staff_def crowding_def crowding_penalty_def sat_raw_def)
qed

lemma one_guest_outcome:
  "run_simulation one_guest =
     Inr \<lparr>Attendance = 1, Revenue = 571, Total_Cost = 5215, Profit = - 4644,
          Satisfaction = 41, Score = 20.5, Crowding = 0.2,
          Details = \<lparr>Venue_Cost = 5000, Marketing_Cost = 0,
                     Catering_Cost = 15, Staff_Cost = 200\<rparr>\<rparr>"
proof -
  have "run_simulation one_guest =
      Inr (simulate \<lparr>Capacity = 500, Fixed_Cost = 5000, Vibe = 8\<rparr> \<lparr>Cost = 15, Quality = 2\<rparr>
        \<lparr>Ratio = 1, CostPer = 200\<rparr> \<lparr>DemandMult = 1, SatPenalty = 0\<rparr> 571 0)"
    using run_simulation_Inr[of one_guest]
    by (simp add: one_guest_def small_lookups scenario_lookups)
  moreover have "\<lceil>1 / 100 :: real\<rceil> = 1" by (simp add: ceiling_eq_iff)
  ultimately show ?thesis
    unfolding simulate_def small_attendance
    by (simp add: num_staff_def crowding_def crowding_penalty_def sat_raw_def)
qed

lemma no_guests_outcome:
  "run_simulation no_guests =
     Inr \<lparr>Attendance = 0, Revenue = 0, Total_Cost = 5100, Profit = - 5100,
          Satisfaction = 41, Score = 20.5, Crowding = 0,
          Details = \<lparr>Venue_Cost = 5000, Marketing_Cost = 100,
                     Catering_Cost = 0, Staff_Cost = 0\<rparr>\<rparr>"
proof -
  have "run_simulation no_guests =
      Inr (simulate \<lparr>Capacity = 500, Fixed_Cost = 5000, Vibe = 8\<rparr> \<lparr>Cost = 15, Quality = 2\<rparr>
        \<lparr>Ratio = 1, CostPer = 200\<rparr> \<lparr>DemandMult = 1, SatPenalty = 0\<rparr> 700 100)"
    using run_simulation_Inr[of no_guests]
    by (simp add: no_guests_def small_lookups scenario_lookups)
  then show ?thesis
    unfolding simulate_def small_attendance
    by (simp add: num_staff_def crowding_def crowding_penalty_def sat_raw_def)
qed

text \<open>Where exact arithmetic would give 910 guests and no guest, the call returns 909
  guests and one guest.\<close>

lemma heavy_rain_outcome:
  "run_simulation heavy_rain =
     Inr \<lparr>Attendance = 909, Revenue = 181800, Total_Cost = 48565, Profit = 133235,
          Satisfaction = 30.6, Score = 48.60875, Crowding = 90.9,
          Details = \<lparr>Venue_Cost = 12000, Marketing_Cost = 0,
                     Catering_Cost = 31815, Staff_Cost = 4750\<rparr>\<rparr>"
proof -
  have "run_simulation heavy_rain =
      Inr (simulate \<lparr>Capacity = 1000, Fixed_Cost = 12000, Vibe = 6\<rparr> \<lparr>Cost = 35, Quality = 6\<rparr>
        \<lparr>Ratio = 2, CostPer = 250\<rparr> \<lparr>DemandMult = 0.7, SatPenalty = - 10\<rparr> 200 0)"
    using run_simulation_Inr[of heavy_rain]
    by (simp add: heavy_rain_def small_lookups scenario_lookups)
  then show ?thesis
    unfolding simulate_def small_attendance
    by (simp add: num_staff_def crowding_def crowding_penalty_def sat_raw_def)
qed

lemma demand_of_one_outcome:
  "run_simulation demand_of_one =
     Inr \<lparr>Attendance = 1, Revenue = 1287999335394743 / 2199023255552,
          Total_Cost = 5240, Profit = 1287999335394743 / 2199023255552 - 5240,
          Satisfaction = 41,
          Score = max 0 (1287999335394743 / 2199023255552 - 5240) / 200000 * 50 + 20.5,
          Crowding = 0.2,
          Details = \<lparr>Venue_Cost = 5000, Marketing_Cost = 25,
                     Catering_Cost = 15, Staff_Cost = 200\<rparr>\<rparr>"
proof -
  have "run_simulation demand_of_one =
      Inr (simulate \<lparr>Capacity = 500, Fixed_Cost = 5000, Vibe = 8\<rparr> \<lparr>Cost = 15, Quality = 2\<rparr>
        \<lparr>Ratio = 1, CostPer = 200\<rparr> \<lparr>DemandMult = 1, SatPenalty = 0\<rparr>
        (1287999335394743 / 2199023255552) 25)"
    using run_simulation_Inr[of demand_of_one]
    by (simp add: demand_of_one_def small_lookups scenario_lookups)
  moreover have "\<lceil>1 / 100 :: real\<rceil> = 1" by (simp add: ceiling_eq_iff)
  ultimately show ?thesis
    unfolding simulate_def small_attendance
    by (simp add: num_staff_def crowding_def crowding_penalty_def sat_raw_def)
qed

lemma VENUES_capacity: "VENUES l = Some v \<Longrightarrow> Capacity v \<le> 5000"
  by (auto simp: VENUES_def split: if_splits)

lemma to_float_fits: "float_or_int64 x \<Longrightarrow> \<exists>y. to_float x = Inr y"
  by (cases x) auto

lemma np_sqrt_arg_fits: "float_or_int64 x \<Longrightarrow> \<exists>y. np_sqrt_arg x = Inr y"
  by (cases x) auto

lemma revenue_to_float_fits:
  assumes "float_or_int64 x" "0 \<le> a" "a \<le> 5000"
  shows "\<exists>y. revenue_to_float x a = Inr y"
proof (cases x)
  case (PyInt n)
  with assms(1) have "\<bar>n\<bar> \<le> 2 ^ 63" by (simp add: abs_le_iff)
  moreover have "\<bar>a\<bar> \<le> 5000" using assms(2,3) by simp
  ultimately have "\<bar>a\<bar> * \<bar>n\<bar> \<le> 5000 * 2 ^ 63" by (intro mult_mono) simp_all
  then have "\<bar>a * n\<bar> \<le> 5000 * 2 ^ 63" by (simp add: abs_mult)
  moreover have "(5000 * 2 ^ 63 :: int) < 2 ^ 1024 - 2 ^ 970" by simp
  ultimately have "\<bar>a * n\<bar> < 2 ^ 1024 - 2 ^ 970" by linarith
  with PyInt show ?thesis by simp
next
  case (PyFloat y)
  then show ?thesis by simp
qed

lemma run_simulation_dyn_Inr:
  assumes "VENUES (Venue i) = Some v" "CATERING (Catering i) = Some c"
    "STAFFING (Staffing i) = Some s" "RISKS (Risk i) = Some r"
    "float_or_int64 (Price i)" "float_or_int64 (Marketing i)"
  shows "run_simulation_dyn i
      = Inr (simulate v c s r (number_value (Price i)) (number_value (Marketing i)))"
proof -
  let ?out = "simulate v c s r (number_value (Price i)) (number_value (Marketing i))"
  have d: "0 \<le> DemandMult r" using assms(4) by (simp add: RISKS_inv)
  have c: "0 \<le> Capacity v" using VENUES_inv[OF assms(1)] by simp
  have "0 \<le> Attendance ?out" "Attendance ?out \<le> 5000"
    using attendance_bounds[OF d c] VENUES_capacity[OF assms(1)]
    by (simp_all add: simulate_fields) (meson order_trans)
  then obtain y where "revenue_to_float (Price i) (Attendance ?out) = Inr y"
    using revenue_to_float_fits[OF assms(5)] by blast
  moreover obtain p m m' where "to_float (Price i) = Inr p" "to_float (Marketing i) = Inr m"
    "np_sqrt_arg (Marketing i) = Inr m'"
    using to_float_fits[OF assms(5)] to_float_fits[OF assms(6)] np_sqrt_arg_fits[OF assms(6)]
    by blast
  ultimately show ?thesis
    using assms(1-4) by (simp add: run_simulation_dyn_def subscript_def Let_def)
qed

lemma run_simulation_values_of:
  assumes "VENUES (Venue i) = Some v" "CATERING (Catering i) = Some c"
    "STAFFING (Staffing i) = Some s" "RISKS (Risk i) = Some r"
  shows "run_simulation (values_of i)
      = Inr (simulate v c s r (number_value (Price i)) (number_value (Marketing i)))"
  using assms run_simulation_Inr[of "values_of i" v c s r] by (simp add: values_of_def)

lemma dyn_test_points:
  "run_simulation_dyn unknown_venue = Inl (KeyError ''Moon Base'')"
  "run_simulation_dyn huge_price = Inl OverflowError"
  by (simp_all add: run_simulation_dyn_def subscript_def unknown_venue_def huge_price_def
      small_lookups scenario_lookups)

lemma sidebar_defaults_values: "values_of sidebar_defaults = scenario"
  by (simp add: values_of_def sidebar_defaults_def scenario_def)

lemma num_staff_bounds:
  "(of_int a / 100) * of_int (Ratio s) \<le> (of_int (num_staff a s) :: real)"
  "(of_int (num_staff a s) :: real) < (of_int a / 100) * of_int (Ratio s) + 1"
  unfolding num_staff_def by linarith+

subsection \<open>Claims\<close>

text \<open>
  Claim C1, as the specification states it: on the worked scenario the engine returns
  attendance 2000, revenue 500000, the four costs 25000, 20000, 70000 and 10000 (40 staff),
  total cost 125000, profit 375000, crowding 100 percent with penalty 15, satisfaction 50.5
  and score 75.25. The score is not 75.25: line 108 does not cap the profit term at 50, so
  the returned record is not the one of the specification.
\<close>

theorem C1_scenario_score_counterexample:
  "run_simulation scenario \<noteq>
     Inr \<lparr>Attendance = 2000, Revenue = 500000, Total_Cost = 125000, Profit = 375000,
          Satisfaction = 50.5, Score = 75.25, Crowding = 100,
          Details = \<lparr>Venue_Cost = 25000, Marketing_Cost = 20000,
                     Catering_Cost = 70000, Staff_Cost = 10000\<rparr>\<rparr>"
  by (simp add: scenario_outcome)

text \<open>
  Claim C1, amended: on the worked scenario the engine returns every value of the
  specification's scenario except the score, which is 119 (93.75 from the profit of
  375000 and 25.25 from the satisfaction of 50.5); the staff count is 40 and the crowding
  penalty is 15.
\<close>

theorem C1_scenario_outcome:
  "run_simulation scenario =
     Inr \<lparr>Attendance = 2000, Revenue = 500000, Total_Cost = 125000, Profit = 375000,
          Satisfaction = 50.5, Score = 119, Crowding = 100,
          Details = \<lparr>Venue_Cost = 25000, Marketing_Cost = 20000,
                     Catering_Cost = 70000, Staff_Cost = 10000\<rparr>\<rparr> \<and>
   num_staff 2000 \<lparr>Ratio = 2, CostPer = 250\<rparr> = 40 \<and>
   crowding_penalty (crowding 2000 \<lparr>Capacity = 2000, Fixed_Cost = 25000, Vibe = 9\<rparr>) = 15"
  by (simp add: scenario_outcome num_staff_def crowding_def crowding_penalty_def)

text \<open>
  Claim C2: for every valid decision the engine returns a score equal to
  \<open>max(0, profit) / 200000 * 50 + satisfaction * 0.5\<close>; the profit term is zero when the
  profit is not positive, exactly 50 at a profit of 200000, and linear in the profit beyond
  that; and the score is not capped at 100: some valid decision scores more.
\<close>

theorem C2_score_formula:
  assumes "valid_decision i"
  shows "(\<exists>out. run_simulation i = Inr out \<and>
      Score out = max 0 (Profit out) / 200000 * 50 + Satisfaction out * 0.5 \<and>
      (Profit out \<le> 0 \<longrightarrow> Score out = Satisfaction out * 0.5) \<and>
      (Profit out = 200000 \<longrightarrow> Score out = 50 + Satisfaction out * 0.5) \<and>
      (200000 \<le> Profit out \<longrightarrow>
         Score out = 50 + (Profit out - 200000) / 4000 + Satisfaction out * 0.5)) \<and>
    (\<exists>j out. valid_decision j \<and> run_simulation j = Inr out \<and> 100 < Score out)"
proof
  from assms obtain v c s r where
    run: "run_simulation i = Inr (simulate v c s r (Price i) (Marketing i))"
    by (rule valid_decision_run)
  let ?out = "simulate v c s r (Price i) (Marketing i)"
  have sc: "Score ?out = max 0 (Profit ?out) / 200000 * 50 + Satisfaction ?out * 0.5"
    by (rule simulate_fields)
  have "Profit ?out \<le> 0 \<longrightarrow> Score ?out = Satisfaction ?out * 0.5"
    unfolding sc by (simp add: max_def)
  moreover have "Profit ?out = 200000 \<longrightarrow> Score ?out = 50 + Satisfaction ?out * 0.5"
    unfolding sc by simp
  moreover have "200000 \<le> Profit ?out \<longrightarrow>
      Score ?out = 50 + (Profit ?out - 200000) / 4000 + Satisfaction ?out * 0.5"
    unfolding sc by (simp add: max_def field_simps)
  ultimately show "\<exists>out. run_simulation i = Inr out \<and>
      Score out = max 0 (Profit out) / 200000 * 50 + Satisfaction out * 0.5 \<and>
      (Profit out \<le> 0 \<longrightarrow> Score out = Satisfaction out * 0.5) \<and>
      (Profit out = 200000 \<longrightarrow> Score out = 50 + Satisfaction out * 0.5) \<and>
      (200000 \<le> Profit out \<longrightarrow>
         Score out = 50 + (Profit out - 200000) / 4000 + Satisfaction out * 0.5)"
    using run sc by blast
next
  show "\<exists>j out. valid_decision j \<and> run_simulation j = Inr out \<and> 100 < Score out"
  proof (intro exI conjI)
    show "valid_decision scenario" by (rule scenario_valid)
    show "run_simulation scenario =
        Inr \<lparr>Attendance = 2000, Revenue = 500000, Total_Cost = 125000, Profit = 375000,
          Satisfaction = 50.5, Score = 119, Crowding = 100,
          Details = \<lparr>Venue_Cost = 25000, Marketing_Cost = 20000,
                     Catering_Cost = 70000, Staff_Cost = 10000\<rparr>\<rparr>"
      by (rule scenario_outcome)
    show "100 < Score \<lparr>Attendance = 2000, Revenue = 500000, Total_Cost = 125000,
          Profit = 375000, Satisfaction = 50.5, Score = 119, Crowding = 100,
          Details = \<lparr>Venue_Cost = 25000, Marketing_Cost = 20000,
                     Catering_Cost = 70000, Staff_Cost = 10000\<rparr>\<rparr>"
      by simp
  qed
qed

text \<open>The worked scenario: a profit of 375000 and a score of 119.\<close>

theorem C2_score_formula_witness:
  "valid_decision scenario \<and>
   (\<exists>out. run_simulation scenario = Inr out \<and> Profit out = 375000 \<and>
      Score out = 50 + (Profit out - 200000) / 4000 + Satisfaction out * 0.5 \<and>
      Score out = 119)"
  using C2_score_formula[OF scenario_valid] scenario_outcome scenario_valid by auto

text \<open>
  Claim C3: for every valid decision the returned attendance is an integer between 0 and
  the capacity of the venue, and it is the floor of the smaller of the risk-adjusted demand
  and the capacity; that value is not negative, so the truncation toward zero of line 82
  is the floor. The risk-adjusted demand is the float of line 78, the rounded product of
  the base demand and the multiplier.
\<close>

theorem C3_attendance_bounded:
  assumes "valid_decision i"
  shows "\<exists>out v r. run_simulation i = Inr out \<and>
      VENUES (Venue i) = Some v \<and> RISKS (Risk i) = Some r \<and>
      0 \<le> Attendance out \<and> Attendance out \<le> Capacity v \<and>
      0 \<le> min (risk_demand r (Price i) (Marketing i)) (of_int (Capacity v)) \<and>
      Attendance out = \<lfloor>min (risk_demand r (Price i) (Marketing i)) (of_int (Capacity v))\<rfloor> \<and>
      risk_demand r (Price i) (Marketing i)
        = fl (base_demand (Price i) (Marketing i) * fl (DemandMult r))"
proof -
  from assms obtain v c s r where l: "VENUES (Venue i) = Some v" "RISKS (Risk i) = Some r"
    and run: "run_simulation i = Inr (simulate v c s r (Price i) (Marketing i))"
    by (rule valid_decision_run)
  have d: "0 \<le> DemandMult r" using l(2) by (simp add: RISKS_inv)
  have c: "0 \<le> Capacity v" using VENUES_inv[OF l(1)] by simp
  let ?out = "simulate v c s r (Price i) (Marketing i)"
  have m1: "0 \<le> Attendance ?out" and m2: "Attendance ?out \<le> Capacity v"
    using attendance_bounds[OF d c] by (simp_all add: simulate_fields)
  have m3: "0 \<le> min (risk_demand r (Price i) (Marketing i)) (of_int (Capacity v))"
    using risk_demand_nonneg[OF d] c by simp
  have m4: "Attendance ?out
      = \<lfloor>min (risk_demand r (Price i) (Marketing i)) (of_int (Capacity v))\<rfloor>"
    using attendance_floor[OF d c] by (simp add: simulate_fields)
  have m5: "risk_demand r (Price i) (Marketing i)
      = fl (base_demand (Price i) (Marketing i) * fl (DemandMult r))"
    by (simp only: risk_demand_def)
  show ?thesis
    by (rule exI[of _ ?out], rule exI[of _ v], rule exI[of _ r], intro conjI)
      (fact run l m1 m2 m3 m4 m5)+
qed

text \<open>With heavy rain at a price of 200 the demand is the float just below 910, and 909
  guests come to a venue of 1000 seats.\<close>

theorem C3_attendance_bounded_witness:
  "valid_decision heavy_rain \<and>
   (\<exists>out v. run_simulation heavy_rain = Inr out \<and> VENUES (Venue heavy_rain) = Some v \<and>
      Attendance out = 909 \<and> Capacity v = 1000 \<and> Attendance out \<le> Capacity v)"
  using C3_attendance_bounded[OF small_valid(4)] heavy_rain_outcome small_valid(4)
  by (auto simp: heavy_rain_def small_lookups)

text \<open>
  Claim C4: for every valid decision the returned satisfaction is
  \<open>vibe * 3.3 + quality * 3.3 + ratio * 8 - penalty + delta\<close> clamped to the interval from 0
  to 100, the penalty being that of the crowding ratio \<open>attendance / capacity\<close>; hence it
  lies between 0 and 100.
\<close>

theorem C4_satisfaction_clamped:
  assumes "valid_decision i"
  shows "\<exists>out v c s r. run_simulation i = Inr out \<and>
      VENUES (Venue i) = Some v \<and> CATERING (Catering i) = Some c \<and>
      STAFFING (Staffing i) = Some s \<and> RISKS (Risk i) = Some r \<and>
      Satisfaction out =
        min 100 (max 0 (of_int (Vibe v) * 3.3 + of_int (Quality c) * 3.3 + of_int (Ratio s) * 8
          - crowding_penalty (of_int (Attendance out) / of_int (Capacity v))
          + of_int (SatPenalty r))) \<and>
      0 \<le> Satisfaction out \<and> Satisfaction out \<le> 100"
proof -
  from assms obtain v c s r where l: "VENUES (Venue i) = Some v" "CATERING (Catering i) = Some c"
      "STAFFING (Staffing i) = Some s" "RISKS (Risk i) = Some r"
    and run: "run_simulation i = Inr (simulate v c s r (Price i) (Marketing i))"
    by (rule valid_decision_run)
  have c: "0 < Capacity v" using VENUES_inv[OF l(1)] by simp
  show ?thesis
    using l run c by (simp add: simulate_fields sat_raw_def crowding_def)
qed

text \<open>The worked scenario: a satisfaction of 50.5.\<close>

theorem C4_satisfaction_clamped_witness:
  "valid_decision scenario \<and>
   (\<exists>out. run_simulation scenario = Inr out \<and> Satisfaction out = 50.5 \<and>
      0 \<le> Satisfaction out \<and> Satisfaction out \<le> 100)"
  using C4_satisfaction_clamped[OF scenario_valid] scenario_outcome scenario_valid by auto

text \<open>
  Claim C5: the crowding penalty is a step of the crowding ratio \<open>attendance / capacity\<close>.
  For every valid decision, when the ratio is strictly above 0.9 the penalty is 15 and the
  satisfaction is the clamped value of the sum less 15; when the ratio is 0.9 or below the
  penalty is 0 and the satisfaction is the clamped value of the sum itself.
\<close>

theorem C5_crowding_step:
  assumes "valid_decision i"
  shows "\<exists>out v c s r. run_simulation i = Inr out \<and>
      VENUES (Venue i) = Some v \<and> CATERING (Catering i) = Some c \<and>
      STAFFING (Staffing i) = Some s \<and> RISKS (Risk i) = Some r \<and>
      (0.9 < (of_int (Attendance out) / of_int (Capacity v) :: real) \<longrightarrow>
         crowding_penalty (of_int (Attendance out) / of_int (Capacity v)) = 15 \<and>
         Satisfaction out =
           min 100 (max 0 (of_int (Vibe v) * 3.3 + of_int (Quality c) * 3.3
             + of_int (Ratio s) * 8 + of_int (SatPenalty r) - 15))) \<and>
      ((of_int (Attendance out) / of_int (Capacity v) :: real) \<le> 0.9 \<longrightarrow>
         crowding_penalty (of_int (Attendance out) / of_int (Capacity v)) = 0 \<and>
         Satisfaction out =
           min 100 (max 0 (of_int (Vibe v) * 3.3 + of_int (Quality c) * 3.3
             + of_int (Ratio s) * 8 + of_int (SatPenalty r))))"
proof -
  from assms obtain v c s r where l: "VENUES (Venue i) = Some v" "CATERING (Catering i) = Some c"
      "STAFFING (Staffing i) = Some s" "RISKS (Risk i) = Some r"
    and run: "run_simulation i = Inr (simulate v c s r (Price i) (Marketing i))"
    by (rule valid_decision_run)
  have c: "0 < Capacity v" using VENUES_inv[OF l(1)] by simp
  let ?out = "simulate v c s r (Price i) (Marketing i)"
  let ?ratio = "of_int (Attendance ?out) / of_int (Capacity v) :: real"
  let ?base = "of_int (Vibe v) * 3.3 + of_int (Quality c) * 3.3
             + of_int (Ratio s) * 8 + of_int (SatPenalty r) :: real"
  have sat: "Satisfaction ?out = min 100 (max 0 (?base - crowding_penalty ?ratio))"
    using c by (simp add: simulate_fields sat_raw_def crowding_def)
  have hi: "0.9 < ?ratio \<longrightarrow> crowding_penalty ?ratio = 15 \<and>
      Satisfaction ?out = min 100 (max 0 (?base - 15))"
    unfolding sat by (simp add: crowding_penalty_def)
  have lo: "?ratio \<le> 0.9 \<longrightarrow> crowding_penalty ?ratio = 0 \<and>
      Satisfaction ?out = min 100 (max 0 ?base)"
    unfolding sat by (simp add: crowding_penalty_def)
  show ?thesis
    by (rule exI[of _ ?out], rule exI[of _ v], rule exI[of _ c], rule exI[of _ s],
        rule exI[of _ r], intro conjI) (fact run l hi lo)+
qed

text \<open>A hall of 500 seats with 450 guests is filled to exactly 0.9 and loses nothing
  (satisfaction 41); the sold-out worked scenario loses 15 (65.5 becomes 50.5).\<close>

theorem C5_crowding_step_witness:
  "valid_decision ninety_percent \<and> valid_decision scenario \<and>
   (\<exists>out v. run_simulation ninety_percent = Inr out \<and>
      VENUES (Venue ninety_percent) = Some v \<and>
      of_int (Attendance out) / of_int (Capacity v) = (0.9::real) \<and> Satisfaction out = 41) \<and>
   (\<exists>out v. run_simulation scenario = Inr out \<and>
      VENUES (Venue scenario) = Some v \<and>
      of_int (Attendance out) / of_int (Capacity v) = (1::real) \<and> Satisfaction out = 65.5 - 15)"
  using C5_crowding_step[OF small_valid(1)] C5_crowding_step[OF scenario_valid]
    ninety_percent_outcome scenario_outcome small_valid(1) scenario_valid
  by (auto simp: ninety_percent_def scenario_def small_lookups scenario_lookups)

text \<open>
  Claim C6, as the specification states it: the call fails if and only if one of the four
  labels is missing, and a decision whose labels resolve, with a price and a budget that
  are not negative and finite, always succeeds. At the sidebar defaults with the price
  \<open>10 ** 400\<close>, an \<open>int\<close>, the four labels resolve and the numbers are not negative, and
  the call fails: \<open>3.5 * price\<close> on line 75 raises \<open>OverflowError\<close>.
\<close>

theorem C6_huge_price_counterexample:
  "Venue huge_price \<in> dom VENUES \<and> Catering huge_price \<in> dom CATERING \<and>
   Staffing huge_price \<in> dom STAFFING \<and> Risk huge_price \<in> dom RISKS \<and>
   0 \<le> number_value (Price huge_price) \<and> 0 \<le> number_value (Marketing huge_price) \<and>
   run_simulation_dyn huge_price = Inl OverflowError"
  by (simp add: dyn_test_points) (simp add: huge_price_def dom_def scenario_lookups)

text \<open>
  Claim C6, amended: a missing label makes the call fail with the \<open>KeyError\<close> of the first
  missing label in the order venue, catering, staffing, risk, during the subscripts, with
  no result and no substitute entry, and the call fails with a \<open>KeyError\<close> only then. When
  the four labels resolve, the call succeeds for every price and budget that are floats or
  \<open>int\<close>s a signed 64-bit integer holds, with the result of the same call on floats of
  the same values; an \<open>int\<close> price of magnitude \<open>2^1024 - 2^970\<close> or more makes line 75
  raise \<open>OverflowError\<close>.
\<close>

theorem C6_failures:
  "(Venue i \<notin> dom VENUES \<longrightarrow> run_simulation_dyn i = Inl (KeyError (Venue i))) \<and>
   (Venue i \<in> dom VENUES \<and> Catering i \<notin> dom CATERING \<longrightarrow>
      run_simulation_dyn i = Inl (KeyError (Catering i))) \<and>
   (Venue i \<in> dom VENUES \<and> Catering i \<in> dom CATERING \<and> Staffing i \<notin> dom STAFFING \<longrightarrow>
      run_simulation_dyn i = Inl (KeyError (Staffing i))) \<and>
   (Venue i \<in> dom VENUES \<and> Catering i \<in> dom CATERING \<and> Staffing i \<in> dom STAFFING \<and>
    Risk i \<notin> dom RISKS \<longrightarrow> run_simulation_dyn i = Inl (KeyError (Risk i))) \<and>
   ((\<exists>k. run_simulation_dyn i = Inl (KeyError k)) \<longleftrightarrow>
      (Venue i \<notin> dom VENUES \<or> Catering i \<notin> dom CATERING \<or>
       Staffing i \<notin> dom STAFFING \<or> Risk i \<notin> dom RISKS)) \<and>
   (Venue i \<in> dom VENUES \<and> Catering i \<in> dom CATERING \<and> Staffing i \<in> dom STAFFING \<and>
    Risk i \<in> dom RISKS \<and> float_or_int64 (Price i) \<and> float_or_int64 (Marketing i) \<longrightarrow>
      (\<exists>out. run_simulation_dyn i = Inr out \<and> run_simulation (values_of i) = Inr out)) \<and>
   (\<forall>n. Venue i \<in> dom VENUES \<and> Catering i \<in> dom CATERING \<and> Staffing i \<in> dom STAFFING \<and>
    Risk i \<in> dom RISKS \<and> Price i = PyInt n \<and> 2 ^ 1024 - 2 ^ 970 \<le> \<bar>n\<bar> \<longrightarrow>
      run_simulation_dyn i = Inl OverflowError)"
proof (intro conjI)
  show "Venue i \<notin> dom VENUES \<longrightarrow> run_simulation_dyn i = Inl (KeyError (Venue i))"
    by (auto simp: run_simulation_dyn_def subscript_def dom_def)
  show "Venue i \<in> dom VENUES \<and> Catering i \<notin> dom CATERING \<longrightarrow>
      run_simulation_dyn i = Inl (KeyError (Catering i))"
    by (auto simp: run_simulation_dyn_def subscript_def dom_def)
  show "Venue i \<in> dom VENUES \<and> Catering i \<in> dom CATERING \<and> Staffing i \<notin> dom STAFFING \<longrightarrow>
      run_simulation_dyn i = Inl (KeyError (Staffing i))"
    by (auto simp: run_simulation_dyn_def subscript_def dom_def)
  show "Venue i \<in> dom VENUES \<and> Catering i \<in> dom CATERING \<and> Staffing i \<in> dom STAFFING \<and>
    Risk i \<notin> dom RISKS \<longrightarrow> run_simulation_dyn i = Inl (KeyError (Risk i))"
    by (auto simp: run_simulation_dyn_def subscript_def dom_def)
  show "(\<exists>k. run_simulation_dyn i = Inl (KeyError k)) \<longleftrightarrow>
      (Venue i \<notin> dom VENUES \<or> Catering i \<notin> dom CATERING \<or>
       Staffing i \<notin> dom STAFFING \<or> Risk i \<notin> dom RISKS)"
  proof
    assume "\<exists>k. run_simulation_dyn i = Inl (KeyError k)"
    then obtain k where k: "run_simulation_dyn i = Inl (KeyError k)" ..
    show "Venue i \<notin> dom VENUES \<or> Catering i \<notin> dom CATERING \<or>
       Staffing i \<notin> dom STAFFING \<or> Risk i \<notin> dom RISKS"
    proof (rule ccontr)
      assume "\<not> ?thesis"
      then obtain v c s r where l: "VENUES (Venue i) = Some v" "CATERING (Catering i) = Some c"
        "STAFFING (Staffing i) = Some s" "RISKS (Risk i) = Some r"
        by auto
      have p: "to_float (Price i) \<noteq> Inl (KeyError k)"
        and m: "to_float (Marketing i) \<noteq> Inl (KeyError k)"
        and q: "np_sqrt_arg (Marketing i) \<noteq> Inl (KeyError k)"
        by (cases "Price i"; simp) (cases "Marketing i"; simp)+
      have "revenue_to_float (Price i) a \<noteq> Inl (KeyError k)" for a
        by (cases "Price i") simp_all
      with k l p m q show False
        by (auto simp: run_simulation_dyn_def subscript_def Let_def split: sum.splits)
    qed
  next
    assume "Venue i \<notin> dom VENUES \<or> Catering i \<notin> dom CATERING \<or>
       Staffing i \<notin> dom STAFFING \<or> Risk i \<notin> dom RISKS"
    then show "\<exists>k. run_simulation_dyn i = Inl (KeyError k)"
      by (auto simp: run_simulation_dyn_def subscript_def dom_def split: option.splits)
  qed
  show "Venue i \<in> dom VENUES \<and> Catering i \<in> dom CATERING \<and> Staffing i \<in> dom STAFFING \<and>
    Risk i \<in> dom RISKS \<and> float_or_int64 (Price i) \<and> float_or_int64 (Marketing i) \<longrightarrow>
      (\<exists>out. run_simulation_dyn i = Inr out \<and> run_simulation (values_of i) = Inr out)"
  proof
    assume h: "Venue i \<in> dom VENUES \<and> Catering i \<in> dom CATERING \<and>
      Staffing i \<in> dom STAFFING \<and> Risk i \<in> dom RISKS \<and>
      float_or_int64 (Price i) \<and> float_or_int64 (Marketing i)"
    then obtain v c s r where l: "VENUES (Venue i) = Some v" "CATERING (Catering i) = Some c"
      "STAFFING (Staffing i) = Some s" "RISKS (Risk i) = Some r"
      by auto
    from h have f: "float_or_int64 (Price i)" "float_or_int64 (Marketing i)" by simp_all
    show "\<exists>out. run_simulation_dyn i = Inr out \<and> run_simulation (values_of i) = Inr out"
      using run_simulation_dyn_Inr[OF l f] run_simulation_values_of[OF l] by simp
  qed
  show "\<forall>n. Venue i \<in> dom VENUES \<and> Catering i \<in> dom CATERING \<and> Staffing i \<in> dom STAFFING \<and>
    Risk i \<in> dom RISKS \<and> Price i = PyInt n \<and> 2 ^ 1024 - 2 ^ 970 \<le> \<bar>n\<bar> \<longrightarrow>
      run_simulation_dyn i = Inl OverflowError"
    by (auto simp: run_simulation_dyn_def subscript_def dom_def)
qed

text \<open>An unknown venue fails with its own label; the sidebar defaults, passed as \<open>int\<close>s,
  give the result of the worked scenario, with the score of 119.\<close>

theorem C6_failures_witness:
  "run_simulation_dyn unknown_venue = Inl (KeyError ''Moon Base'') \<and>
   (\<exists>out. run_simulation_dyn sidebar_defaults = Inr out \<and>
      run_simulation scenario = Inr out \<and> Attendance out = 2000 \<and> Score out = 119)"
proof -
  have "Venue unknown_venue \<notin> dom VENUES"
    by (simp add: unknown_venue_def dom_def small_lookups)
  then have "run_simulation_dyn unknown_venue = Inl (KeyError (Venue unknown_venue))"
    using C6_failures[of unknown_venue] by blast
  then have a: "run_simulation_dyn unknown_venue = Inl (KeyError ''Moon Base'')"
    by (simp add: unknown_venue_def)
  have "Venue sidebar_defaults \<in> dom VENUES \<and> Catering sidebar_defaults \<in> dom CATERING \<and>
      Staffing sidebar_defaults \<in> dom STAFFING \<and> Risk sidebar_defaults \<in> dom RISKS \<and>
      float_or_int64 (Price sidebar_defaults) \<and> float_or_int64 (Marketing sidebar_defaults)"
    by (simp add: sidebar_defaults_def dom_def scenario_lookups)
  then have "\<exists>out. run_simulation_dyn sidebar_defaults = Inr out \<and>
      run_simulation (values_of sidebar_defaults) = Inr out"
    using C6_failures[of sidebar_defaults] by blast
  then have "\<exists>out. run_simulation_dyn sidebar_defaults = Inr out \<and>
      run_simulation scenario = Inr out \<and> Attendance out = 2000 \<and> Score out = 119"
    using scenario_outcome by (auto simp: sidebar_defaults_values)
  with a show ?thesis by simp
qed

text \<open>
  Claim C7: with the marketing budget fixed (and not negative), the base demand
  \<open>max(0, 2000 - 3.5 * price + 0.04 * marketing + 10 * sqrt(marketing))\<close> of line 75 does not
  grow with the price: for \<open>p1 \<le> p2\<close> the demand at \<open>p2\<close> is at most the demand at \<open>p1\<close>.
  The prices need not be non-negative for this.
\<close>

theorem C7_base_demand_price:
  assumes "0 \<le> m" "p1 \<le> p2"
  shows "base_demand p2 m \<le> base_demand p1 m"
  using assms(2) by (rule base_demand_antimono_price)

text \<open>Without marketing, a price of 100 gives a demand of 1650 and a price of 200 one of 1300.\<close>

theorem C7_base_demand_price_witness:
  "(0::real) \<le> 0 \<and> (100::real) \<le> 200 \<and> base_demand 200 0 \<le> base_demand 100 0 \<and>
   base_demand 200 0 = 1300 \<and> base_demand 100 0 = 1650"
  using C7_base_demand_price[of 0 100 200] by (simp add: small_base)

text \<open>
  Claim C8: with the price fixed, the base demand does not shrink when the marketing
  budget grows: for budgets \<open>0 \<le> m1 \<le> m2\<close> the demand at \<open>m1\<close> is at most the demand at \<open>m2\<close>.
\<close>

theorem C8_base_demand_marketing:
  assumes "0 \<le> m1" "m1 \<le> m2"
  shows "base_demand p m1 \<le> base_demand p m2"
  using assms by (rule base_demand_mono_marketing)

text \<open>At a price of 250, no budget gives a demand of 1125 and a budget of 10000 one of 2525.\<close>

theorem C8_base_demand_marketing_witness:
  "(0::real) \<le> 0 \<and> (0::real) \<le> 10000 \<and> base_demand 250 0 \<le> base_demand 250 10000 \<and>
   base_demand 250 0 = 1125 \<and> base_demand 250 10000 = 2525"
  using C8_base_demand_marketing[of 0 10000 250] by (simp add: small_base budget_10000_base)

text \<open>
  Claim C9: for every valid decision the staff count is the ceiling of
  \<open>(attendance / 100) * ratio\<close>, that is the least integer not below it, and the staff cost
  of the result is that count times the cost per staff; with one guest and a ratio of 1
  the count is 1, not 0.
\<close>

theorem C9_staff_rounded_up:
  assumes "valid_decision i"
  shows "\<exists>out s. run_simulation i = Inr out \<and> STAFFING (Staffing i) = Some s \<and>
      num_staff (Attendance out) s =
        \<lceil>(of_int (Attendance out) / 100) * of_int (Ratio s) :: real\<rceil> \<and>
      (of_int (Attendance out) / 100) * of_int (Ratio s)
        \<le> (of_int (num_staff (Attendance out) s) :: real) \<and>
      (of_int (num_staff (Attendance out) s) :: real)
        < (of_int (Attendance out) / 100) * of_int (Ratio s) + 1 \<and>
      Staff_Cost (Details out) =
        of_int (num_staff (Attendance out) s) * of_int (CostPer s) \<and>
      (Attendance out = 1 \<and> Ratio s = 1 \<longrightarrow>
         num_staff (Attendance out) s = 1 \<and> Staff_Cost (Details out) = of_int (CostPer s))"
proof -
  from assms obtain v c s r where l: "STAFFING (Staffing i) = Some s"
    and run: "run_simulation i = Inr (simulate v c s r (Price i) (Marketing i))"
    by (rule valid_decision_run)
  let ?out = "simulate v c s r (Price i) (Marketing i)"
  have one: "Attendance ?out = 1 \<and> Ratio s = 1 \<longrightarrow>
      num_staff (Attendance ?out) s = 1 \<and> Staff_Cost (Details ?out) = of_int (CostPer s)"
  proof
    assume h: "Attendance ?out = 1 \<and> Ratio s = 1"
    have "\<lceil>1 / 100 :: real\<rceil> = 1" by (simp add: ceiling_eq_iff)
    with h have n: "num_staff (Attendance ?out) s = 1" by (simp add: num_staff_def)
    moreover have "Staff_Cost (Details ?out) =
        of_int (num_staff (Attendance ?out) s) * of_int (CostPer s)"
      by (simp add: simulate_fields)
    ultimately show "num_staff (Attendance ?out) s = 1 \<and>
        Staff_Cost (Details ?out) = of_int (CostPer s)" by simp
  qed
  have "Staff_Cost (Details ?out) = of_int (num_staff (Attendance ?out) s) * of_int (CostPer s)"
    by (simp add: simulate_fields)
  moreover have "num_staff (Attendance ?out) s =
      \<lceil>(of_int (Attendance ?out) / 100) * of_int (Ratio s) :: real\<rceil>"
    by (simp add: num_staff_def)
  ultimately show ?thesis
    using l run one num_staff_bounds[of "Attendance ?out" s] by blast
qed

text \<open>A price of 571 without marketing leaves a demand of 1.5, hence one guest; the
  skeleton crew then has one member, who costs 200.\<close>

theorem C9_staff_rounded_up_witness:
  "valid_decision one_guest \<and>
   (\<exists>out s. run_simulation one_guest = Inr out \<and> STAFFING (Staffing one_guest) = Some s \<and>
      Attendance out = 1 \<and> Ratio s = 1 \<and> num_staff (Attendance out) s = 1 \<and>
      Staff_Cost (Details out) = 200)"
  using C9_staff_rounded_up[OF small_valid(2)] one_guest_outcome small_valid(2)
  by (auto simp: one_guest_def small_lookups)

text \<open>
  Claim C10: for a valid decision whose risk-adjusted demand, the float of line 78, is
  below 1 the call still succeeds, with attendance 0, revenue 0, catering cost 0, staff
  count 0 and staff cost 0; the total cost is the fixed cost of the venue plus the whole
  marketing budget, and the profit is its negative.
\<close>

theorem C10_no_attendance:
  assumes "valid_decision i"
    and "VENUES (Venue i) = Some v" and "STAFFING (Staffing i) = Some s"
    and "RISKS (Risk i) = Some r"
    and "risk_demand r (Price i) (Marketing i) < 1"
  shows "\<exists>out. run_simulation i = Inr out \<and> Attendance out = 0 \<and> Revenue out = 0 \<and>
      Catering_Cost (Details out) = 0 \<and> num_staff (Attendance out) s = 0 \<and>
      Staff_Cost (Details out) = 0 \<and> Venue_Cost (Details out) = Fixed_Cost v \<and>
      Marketing_Cost (Details out) = Marketing i \<and>
      Total_Cost out = of_int (Fixed_Cost v) + Marketing i \<and>
      Profit out = - (of_int (Fixed_Cost v) + Marketing i)"
proof -
  from assms(1) obtain v' c s' r' where l: "VENUES (Venue i) = Some v'"
      "STAFFING (Staffing i) = Some s'" "RISKS (Risk i) = Some r'"
    and run': "run_simulation i = Inr (simulate v' c s' r' (Price i) (Marketing i))"
    by (rule valid_decision_run)
  from l assms(2-4) have "v' = v" "s' = s" "r' = r" by simp_all
  with run' have run: "run_simulation i = Inr (simulate v c s r (Price i) (Marketing i))"
    by simp
  have d: "0 \<le> DemandMult r" using assms(4) by (simp add: RISKS_inv)
  have cap: "0 < Capacity v" using VENUES_inv[OF assms(2)] by simp
  then have cap0: "0 \<le> Capacity v" by simp
  let ?x = "min (risk_demand r (Price i) (Marketing i)) (of_int (Capacity v))"
  have "0 \<le> ?x" using risk_demand_nonneg[OF d] cap0 by simp
  moreover have "?x < 1" using assms(5) by simp
  ultimately have "\<lfloor>?x\<rfloor> = 0" by (simp add: floor_eq_iff)
  then have a: "attendance v r (Price i) (Marketing i) = 0"
    by (simp add: attendance_floor[OF d cap0])
  have n: "num_staff 0 s = 0" by (simp add: num_staff_def)
  show ?thesis
    using run by (simp add: simulate_fields a n)
qed

text \<open>A price of 700 with a budget of 100 leaves no demand; the hall and the budget
  still cost 5100.\<close>

theorem C10_no_attendance_witness:
  "valid_decision no_guests \<and>
   risk_demand \<lparr>DemandMult = 1, SatPenalty = 0\<rparr> 700 100 < 1 \<and>
   (\<exists>out. run_simulation no_guests = Inr out \<and> Attendance out = 0 \<and> Revenue out = 0 \<and>
      Total_Cost out = 5100 \<and> Profit out = - 5100)"
proof -
  have v: "VENUES (Venue no_guests) = Some \<lparr>Capacity = 500, Fixed_Cost = 5000, Vibe = 8\<rparr>"
    and s: "STAFFING (Staffing no_guests) = Some \<lparr>Ratio = 1, CostPer = 200\<rparr>"
    and r: "RISKS (Risk no_guests) = Some \<lparr>DemandMult = 1, SatPenalty = 0\<rparr>"
    by (simp_all add: no_guests_def small_lookups scenario_lookups)
  have d: "risk_demand \<lparr>DemandMult = 1, SatPenalty = 0\<rparr> (Price no_guests)
      (Marketing no_guests) < 1"
    by (simp add: no_guests_def small_risk_demand)
  have "\<exists>out. run_simulation no_guests = Inr out \<and> Attendance out = 0 \<and> Revenue out = 0 \<and>
      Total_Cost out = 5100 \<and> Profit out = - 5100"
    using C10_no_attendance[OF small_valid(3) v s r d] by (auto simp: no_guests_def)
  then show ?thesis
    using small_valid(3) by (simp add: small_risk_demand)
qed

end
